theory Spec2Isabelle
  imports Main "HOL-Library.AList" "HOL-Library.Word"
begin

section \<open>Failures\<close>

text \<open>
  A handler of \<^verbatim>\<open>main.go\<close> ends in one of four ways: it writes a response, it returns
  the \<^verbatim>\<open>error\<close> that a call on the Kubernetes client gave it, it returns the
  \<^verbatim>\<open>error\<close> that a call on the request context gave it (parsing the body, rendering the
  view, writing JSON), or the Go run time panics (index out of range, nil pointer
  dereference, assignment to an entry of a nil map). The source defines no error values of
  its own.
\<close>

datatype k8s_error = NotFound | AlreadyExists | Invalid | Unavailable

datatype fiber_error = BodyParserError | RenderError | JSONError

datatype panic_kind = IndexOutOfRange | NilDereference | NilMapAssignment

datatype failure = Error k8s_error | Fiber fiber_error | Panic panic_kind

fun crashes :: "failure + 'a \<Rightarrow> bool" where
  "crashes (Inl (Panic p)) = True"
| "crashes (Inl (Error e)) = False"
| "crashes (Inl (Fiber e)) = False"
| "crashes (Inr v) = False"

section \<open>Go maps of strings\<close>

text \<open>
  A \<^verbatim>\<open>map[string]string\<close> is either nil (\<open>None\<close>) or a finite map, kept as an
  association list whose first pair for a key is the entry of that key. Reading a nil
  map behaves like reading an empty one; assigning to an entry of a nil map panics.
\<close>

type_synonym gomap = "(string \<times> string) list option"

definition entries :: "gomap \<Rightarrow> (string \<rightharpoonup> string)" where
  "entries m = (case m of None \<Rightarrow> Map.empty | Some al \<Rightarrow> map_of al)"

text \<open>\<^verbatim>\<open>m[k]\<close>: the zero value, the empty string, when the key is absent.\<close>

definition index :: "gomap \<Rightarrow> string \<Rightarrow> string" where
  "index m k = (case entries m k of None \<Rightarrow> [] | Some v \<Rightarrow> v)"

text \<open>\<^verbatim>\<open>_, ok := m[k]\<close>\<close>

definition comma_ok :: "gomap \<Rightarrow> string \<Rightarrow> bool" where
  "comma_ok m k = (case entries m k of None \<Rightarrow> False | Some v \<Rightarrow> True)"

text \<open>\<^verbatim>\<open>m[k] = v\<close>\<close>

definition assign :: "gomap \<Rightarrow> string \<Rightarrow> string \<Rightarrow> failure + gomap" where
  "assign m k v =
     (case m of
        None \<Rightarrow> Inl (Panic NilMapAssignment)
      | Some al \<Rightarrow> Inr (Some (AList.update k v al)))"

section \<open>The types of \<^verbatim>\<open>main.go\<close>\<close>

record Deployment =
  Name :: string
  Image :: string
  Track :: string
  Replicas :: "32 word"
  AvailableReplicas :: "32 word"

record Endpoint =
  TargetPod :: string
  Ip :: string

record AppStateResponse =
  CanaryEnabled :: bool
  Deployments :: "Deployment list"
  Endpoints :: "Endpoint list"

record CanaryCreateRequest =
  req_Tag :: string
  req_Replicas :: "32 word"

record jsonPatchOp =
  Op :: string
  Path :: string
  From :: string
  Value :: string

section \<open>The Kubernetes objects the source reads and writes\<close>

text \<open>
  Only the fields that \<^verbatim>\<open>main.go\<close> touches are spelled out. Every other field of a
  container, of a pod specification and of a deployment specification (ports, resources,
  volumes, environment, strategy, ...) is carried along in an uninterpreted \<open>other\<close>
  field. Pointers are options.
\<close>

record ObjectMeta =
  meta_Name :: string
  meta_Labels :: gomap
  meta_Annotations :: gomap

record Container =
  ctr_Name :: string
  ctr_Image :: string
  ctr_other :: string

record PodSpec =
  pod_Containers :: "Container list"
  pod_other :: string

record PodTemplateSpec =
  tpl_ObjectMeta :: ObjectMeta
  tpl_Spec :: PodSpec

record LabelSelector =
  sel_MatchLabels :: gomap
  sel_MatchExpressions :: string

record DeploymentSpec =
  spec_Replicas :: "32 word option"
  spec_Selector :: "LabelSelector option"
  spec_Template :: PodTemplateSpec
  spec_other :: string

record DeploymentStatus =
  status_AvailableReplicas :: "32 word"

record K8sDeployment =
  dep_ObjectMeta :: ObjectMeta
  dep_Spec :: DeploymentSpec
  dep_Status :: DeploymentStatus

record ObjectReference =
  ref_Name :: string

record EndpointAddress =
  addr_IP :: string
  addr_TargetRef :: "ObjectReference option"

record EndpointSubset =
  subset_Addresses :: "EndpointAddress list"

record K8sEndpoints =
  eps_Name :: string
  eps_Subsets :: "EndpointSubset list"

record K8sService =
  svc_Name :: string
  svc_Selector :: gomap

section \<open>The client\<close>

text \<open>
  \<^verbatim>\<open>*kubernetes.Clientset\<close>, restricted to the six calls of the source, all in namespace
  \<^verbatim>\<open>default\<close>. The cluster behind the client is a state of type \<open>'c\<close>: a read returns
  a result, a write returns a result and the next state. Any of them may fail. The list
  call takes the labels of the selector before it is formatted for the wire.
\<close>

record 'c Clientset =
  DeploymentsList :: "(string \<times> string) list \<Rightarrow> 'c \<Rightarrow> k8s_error + K8sDeployment list"
  DeploymentsGet :: "string \<Rightarrow> 'c \<Rightarrow> k8s_error + K8sDeployment"
  DeploymentsCreate :: "K8sDeployment \<Rightarrow> 'c \<Rightarrow> (k8s_error + K8sDeployment) \<times> 'c"
  EndpointsGet :: "string \<Rightarrow> 'c \<Rightarrow> k8s_error + K8sEndpoints"
  ServicesGet :: "string \<Rightarrow> 'c \<Rightarrow> k8s_error + K8sService"
  ServicesPatch :: "string \<Rightarrow> jsonPatchOp list \<Rightarrow> 'c \<Rightarrow> (k8s_error + K8sService) \<times> 'c"

section \<open>Library functions of Go\<close>

text \<open>
  \<^verbatim>\<open>strconv.ParseBool\<close> accepts exactly twelve spellings and returns an error on
  anything else (\<open>None\<close>).
\<close>

definition ParseBool :: "string \<Rightarrow> bool option" where
  "ParseBool str =
     (if str \<in> set [''1'', ''t'', ''T'', ''true'', ''TRUE'', ''True''] then Some True
      else if str \<in> set [''0'', ''f'', ''F'', ''false'', ''FALSE'', ''False''] then Some False
      else None)"

text \<open>
  \<^verbatim>\<open>strings.SplitN(s, sep, n)\<close> for a separator of one byte. \<open>genSplit s sep k\<close> cuts at
  most \<open>k\<close> times, at the leftmost separators; \<open>n = 0\<close> gives no substring at all, a
  negative \<open>n\<close> all of them, and a positive \<open>n\<close> at most \<open>n\<close>, the last one being the
  unsplit remainder.
\<close>

fun genSplit :: "string \<Rightarrow> char \<Rightarrow> nat \<Rightarrow> string list" where
  "genSplit s sep 0 = [s]"
| "genSplit s sep (Suc k) =
     (if sep \<in> set s
      then takeWhile (\<lambda>c. c \<noteq> sep) s # genSplit (tl (dropWhile (\<lambda>c. c \<noteq> sep) s)) sep k
      else [s])"

definition SplitN :: "string \<Rightarrow> char \<Rightarrow> int \<Rightarrow> string list" where
  "SplitN s sep n =
     (if n = 0 then []
      else if n < 0 then genSplit s sep (length s)
      else genSplit s sep (nat (n - 1)))"

text \<open>\<^verbatim>\<open>strings.ReplaceAll\<close> for a pattern and a replacement of one byte each.\<close>

definition ReplaceAll :: "string \<Rightarrow> char \<Rightarrow> char \<Rightarrow> string" where
  "ReplaceAll s old new = map (\<lambda>c. if c = old then new else c) s"

section \<open>The State Projector\<close>

text \<open>\<^verbatim>\<open>asCustomDeployment\<close>: the loop appends one entry per object, in order.\<close>

fun asCustomDeployment_loop :: "Deployment list \<Rightarrow> K8sDeployment list \<Rightarrow> failure + Deployment list" where
  "asCustomDeployment_loop customDeployments [] = Inr customDeployments"
| "asCustomDeployment_loop customDeployments (v # vs) =
     (case pod_Containers (tpl_Spec (spec_Template (dep_Spec v))) of
        [] \<Rightarrow> Inl (Panic IndexOutOfRange)
      | c0 # cs \<Rightarrow>
          (case spec_Replicas (dep_Spec v) of
             None \<Rightarrow> Inl (Panic NilDereference)
           | Some r \<Rightarrow>
               asCustomDeployment_loop
                 (customDeployments @
                   [\<lparr>Name = meta_Name (dep_ObjectMeta v),
                     Image = ctr_Image c0,
                     Track = index (meta_Labels (dep_ObjectMeta v)) ''track'',
                     Replicas = r,
                     AvailableReplicas = status_AvailableReplicas (dep_Status v)\<rparr>])
                 vs))"

definition asCustomDeployment :: "K8sDeployment list \<Rightarrow> failure + Deployment list" where
  "asCustomDeployment deployments = asCustomDeployment_loop [] deployments"

fun asCustomEndpoint_loop :: "Endpoint list \<Rightarrow> EndpointAddress list \<Rightarrow> failure + Endpoint list" where
  "asCustomEndpoint_loop customEndpoints [] = Inr customEndpoints"
| "asCustomEndpoint_loop customEndpoints (v # vs) =
     (case addr_TargetRef v of
        None \<Rightarrow> Inl (Panic NilDereference)
      | Some ref \<Rightarrow>
          asCustomEndpoint_loop
            (customEndpoints @ [\<lparr>TargetPod = ref_Name ref, Ip = addr_IP v\<rparr>]) vs)"

definition asCustomEndpoint :: "EndpointAddress list \<Rightarrow> failure + Endpoint list" where
  "asCustomEndpoint endpoints = asCustomEndpoint_loop [] endpoints"

text \<open>The filter loop of \<^verbatim>\<open>GetAppState\<close> (lines 95 to 107).\<close>

fun managedDeployments_loop :: "K8sDeployment list \<Rightarrow> K8sDeployment list \<Rightarrow> K8sDeployment list" where
  "managedDeployments_loop managedDeployments [] = managedDeployments"
| "managedDeployments_loop managedDeployments (v # vs) =
     (case ParseBool (index (meta_Annotations (dep_ObjectMeta v)) ''devops-tool-htmx'') of
        None \<Rightarrow> managedDeployments_loop managedDeployments vs
      | Some managed \<Rightarrow>
          if \<not> comma_ok (meta_Labels (dep_ObjectMeta v)) ''track''
          then managedDeployments_loop managedDeployments vs
          else if managed
          then managedDeployments_loop (managedDeployments @ [v]) vs
          else managedDeployments_loop managedDeployments vs)"

definition GetAppState :: "string \<Rightarrow> 'c Clientset \<Rightarrow> 'c \<Rightarrow> failure + AppStateResponse" where
  "GetAppState name k8s c =
     (case DeploymentsList k8s [(''app'', name)] c of
        Inl err \<Rightarrow> Inl (Error err)
      | Inr items \<Rightarrow>
          let managedDeployments = managedDeployments_loop [] items in
          (case EndpointsGet k8s name c of
             Inl err \<Rightarrow> Inl (Error err)
           | Inr endpoint \<Rightarrow>
               (case ServicesGet k8s name c of
                  Inl err \<Rightarrow> Inl (Error err)
                | Inr svc \<Rightarrow>
                    let addresses =
                          (case eps_Subsets endpoint of [] \<Rightarrow> [] | s0 # ss \<Rightarrow> subset_Addresses s0);
                        canaryEnabled = (\<not> (index (svc_Selector svc) ''track'' = ''main''))
                    in
                    (case asCustomDeployment managedDeployments of
                       Inl p \<Rightarrow> Inl p
                     | Inr ds \<Rightarrow>
                         (case asCustomEndpoint addresses of
                            Inl p \<Rightarrow> Inl p
                          | Inr es \<Rightarrow>
                              Inr \<lparr>CanaryEnabled = canaryEnabled,
                                   Deployments = ds,
                                   Endpoints = es\<rparr>)))))"

section \<open>The Canary Spawner\<close>

text \<open>
  The object that the handler of \<^verbatim>\<open>/app/:name/create_canary\<close> builds from the fetched
  primary \<open>deployment\<close> (lines 220 to 239). \<open>rnd\<close> is what
  \<^verbatim>\<open>namesgenerator.GetRandomName(0)\<close> returned. The statements run in the order of the
  source, so the first one that panics decides the panic.
\<close>

definition canary_deployment ::
  "string \<Rightarrow> string \<Rightarrow> CanaryCreateRequest \<Rightarrow> K8sDeployment \<Rightarrow> failure + K8sDeployment" where
  "canary_deployment name rnd req deployment =
     (let meta = \<lparr>meta_Name = name @ ''-canary-'' @ ReplaceAll rnd (CHR ''_'') (CHR ''-''),
                  meta_Labels = Some [(''app'', ''nginx'')],
                  meta_Annotations = Some [(''devops-tool-htmx'', ''true'')]\<rparr>;
          spec = dep_Spec deployment
      in
      case assign (meta_Labels meta) ''track'' ''canary'' of
        Inl p \<Rightarrow> Inl p
      | Inr labels \<Rightarrow>
      (case spec_Selector spec of
        None \<Rightarrow> Inl (Panic NilDereference)
      | Some selector \<Rightarrow>
      (case assign (sel_MatchLabels selector) ''track'' ''canary'' of
        Inl p \<Rightarrow> Inl p
      | Inr matchLabels \<Rightarrow>
      (case assign (meta_Labels (tpl_ObjectMeta (spec_Template spec))) ''track'' ''canary'' of
        Inl p \<Rightarrow> Inl p
      | Inr templateLabels \<Rightarrow>
      (case pod_Containers (tpl_Spec (spec_Template spec)) of
        [] \<Rightarrow> Inl (Panic IndexOutOfRange)
      | c0 # cs \<Rightarrow>
      (case SplitN (ctr_Image c0) (CHR '':'') 2 of
        [] \<Rightarrow> Inl (Panic IndexOutOfRange)
      | imageSplit0 # rest \<Rightarrow>
          Inr \<lparr>dep_ObjectMeta = meta\<lparr>meta_Labels := labels\<rparr>,
               dep_Spec = spec
                 \<lparr>spec_Replicas := Some (req_Replicas req),
                  spec_Selector := Some (selector\<lparr>sel_MatchLabels := matchLabels\<rparr>),
                  spec_Template := (spec_Template spec)
                    \<lparr>tpl_ObjectMeta := (tpl_ObjectMeta (spec_Template spec))
                       \<lparr>meta_Labels := templateLabels\<rparr>,
                     tpl_Spec := (tpl_Spec (spec_Template spec))
                       \<lparr>pod_Containers :=
                          c0\<lparr>ctr_Image := imageSplit0 @ '':'' @ req_Tag req\<rparr> # cs\<rparr>\<rparr>\<rparr>,
               dep_Status = \<lparr>status_AvailableReplicas = 0\<rparr>\<rparr>))))))"

text \<open>
  What the handler reads from and writes to its \<^verbatim>\<open>*fiber.Ctx\<close>, besides the route
  parameter \<^verbatim>\<open>name\<close>: the request that \<^verbatim>\<open>c.BodyParser\<close> decodes from the body
  (\<open>None\<close> when it returns an error), the value of the header \<^verbatim>\<open>HX-Request\<close>
  (\<^verbatim>\<open>false\<close> when the request has none), and whether \<^verbatim>\<open>c.Render\<close> and \<^verbatim>\<open>c.JSON\<close>
  succeed on a state.
\<close>

record Ctx =
  ctx_BodyParser :: "CanaryCreateRequest option"
  ctx_HXRequest :: string
  ctx_Render :: "AppStateResponse \<Rightarrow> bool"
  ctx_JSON :: "AppStateResponse \<Rightarrow> bool"

text \<open>
  The end of the handler (lines 249 to 253): the view is rendered for a request of HTMX,
  JSON is written otherwise; a header that is no boolean counts as false. \<open>Inr\<close> is the
  state that went into the response.
\<close>

definition respond :: "Ctx \<Rightarrow> AppStateResponse \<Rightarrow> failure + AppStateResponse" where
  "respond ctx appState =
     (let htmx = (case ParseBool (ctx_HXRequest ctx) of None \<Rightarrow> False | Some b \<Rightarrow> b)
      in if htmx
         then (if ctx_Render ctx appState then Inr appState else Inl (Fiber RenderError))
         else (if ctx_JSON ctx appState then Inr appState else Inl (Fiber JSONError)))"

text \<open>
  The handler (lines 208 to 254): parse the body, fetch the primary, build the canary,
  create it, read the state again, write the response.
\<close>

definition create_canary ::
  "Ctx \<Rightarrow> string \<Rightarrow> string \<Rightarrow> 'c Clientset \<Rightarrow> 'c \<Rightarrow> (failure + AppStateResponse) \<times> 'c" where
  "create_canary ctx name rnd k8s c =
     (case ctx_BodyParser ctx of
        None \<Rightarrow> (Inl (Fiber BodyParserError), c)
      | Some req \<Rightarrow>
     (case DeploymentsGet k8s name c of
        Inl err \<Rightarrow> (Inl (Error err), c)
      | Inr deployment \<Rightarrow>
          (case canary_deployment name rnd req deployment of
             Inl p \<Rightarrow> (Inl p, c)
           | Inr canary \<Rightarrow>
               (case DeploymentsCreate k8s canary c of
                  (Inl err, c') \<Rightarrow> (Inl (Error err), c')
                | (Inr created, c') \<Rightarrow>
                    (case GetAppState name k8s c' of
                       Inl err \<Rightarrow> (Inl err, c')
                     | Inr appState \<Rightarrow> (respond ctx appState, c'))))))"

section \<open>The Traffic Switch\<close>

text \<open>
  The handler of \<^verbatim>\<open>/app/:name/set_canary\<close>, from the query parameter \<open>enabled\<close> to
  the state it reads back (lines 257 to 284). Marshalling the patch cannot fail, and the
  pause of 100 ms between the patch and the read changes nothing in this model, where the
  store answers a read with what the last write left.
\<close>

definition set_canary ::
  "string \<Rightarrow> bool \<Rightarrow> 'c Clientset \<Rightarrow> 'c \<Rightarrow> (failure + AppStateResponse) \<times> 'c" where
  "set_canary name enabled k8s c =
     (let patch0 = \<lparr>Op = ''add'', Path = ''/spec/selector/track'', From = [], Value = ''main''\<rparr>;
          patch = [if enabled then patch0\<lparr>Op := ''remove''\<rparr> else patch0]
      in
      case ServicesPatch k8s name patch c of
        (Inl err, c') \<Rightarrow> (Inl (Error err), c')
      | (Inr svc, c') \<Rightarrow> (GetAppState name k8s c', c'))"

section \<open>An object store behind the client\<close>

text \<open>
  The cluster is not part of the repository. This store stands for it where a statement
  needs a write to be seen by a later read: three lists of objects of one namespace,
  looked up by name or by label, with the answers the Kubernetes API gives: \<open>NotFound\<close>
  for a missing name, \<open>AlreadyExists\<close> for a name taken, \<open>Invalid\<close> for a patch that
  does not apply.
\<close>

record Cluster =
  cl_Deployments :: "K8sDeployment list"
  cl_Endpoints :: "K8sEndpoints list"
  cl_Services :: "K8sService list"

definition matches :: "(string \<times> string) list \<Rightarrow> gomap \<Rightarrow> bool" where
  "matches sel labels = list_all (\<lambda>(key, v). entries labels key = Some v) sel"

definition store_DeploymentsList :: "(string \<times> string) list \<Rightarrow> Cluster \<Rightarrow> k8s_error + K8sDeployment list" where
  "store_DeploymentsList sel c =
     Inr (filter (\<lambda>d. matches sel (meta_Labels (dep_ObjectMeta d))) (cl_Deployments c))"

definition store_DeploymentsGet :: "string \<Rightarrow> Cluster \<Rightarrow> k8s_error + K8sDeployment" where
  "store_DeploymentsGet name c =
     (case find (\<lambda>d. meta_Name (dep_ObjectMeta d) = name) (cl_Deployments c) of
        None \<Rightarrow> Inl NotFound
      | Some d \<Rightarrow> Inr d)"

definition store_DeploymentsCreate :: "K8sDeployment \<Rightarrow> Cluster \<Rightarrow> (k8s_error + K8sDeployment) \<times> Cluster" where
  "store_DeploymentsCreate d c =
     (case find (\<lambda>d'. meta_Name (dep_ObjectMeta d') = meta_Name (dep_ObjectMeta d)) (cl_Deployments c) of
        Some d' \<Rightarrow> (Inl AlreadyExists, c)
      | None \<Rightarrow> (Inr d, c\<lparr>cl_Deployments := cl_Deployments c @ [d]\<rparr>))"

definition store_EndpointsGet :: "string \<Rightarrow> Cluster \<Rightarrow> k8s_error + K8sEndpoints" where
  "store_EndpointsGet name c =
     (case find (\<lambda>e. eps_Name e = name) (cl_Endpoints c) of
        None \<Rightarrow> Inl NotFound
      | Some e \<Rightarrow> Inr e)"

definition store_ServicesGet :: "string \<Rightarrow> Cluster \<Rightarrow> k8s_error + K8sService" where
  "store_ServicesGet name c =
     (case find (\<lambda>s. svc_Name s = name) (cl_Services c) of
        None \<Rightarrow> Inl NotFound
      | Some s \<Rightarrow> Inr s)"

text \<open>
  A JSON Patch (RFC 6902) on a member of \<^verbatim>\<open>/spec/selector\<close>. \<^verbatim>\<open>add\<close> sets the member,
  replacing a value that is there (section 4.1); it needs the object \<^verbatim>\<open>/spec/selector\<close>
  to exist, and a selector without entries is left out of the JSON form of a service.
  \<^verbatim>\<open>remove\<close> needs the member itself to exist (section 4.2). A patch is applied whole or
  not at all.
\<close>

definition selector_member :: "string \<Rightarrow> string option" where
  "selector_member path =
     (if take 15 path = ''/spec/selector/'' then Some (drop 15 path) else None)"

definition applyOp :: "jsonPatchOp \<Rightarrow> gomap \<Rightarrow> k8s_error + gomap" where
  "applyOp p sel =
     (case selector_member (Path p) of
        None \<Rightarrow> Inl Invalid
      | Some key \<Rightarrow>
          if Op p = ''add''
          then (case sel of
                  None \<Rightarrow> Inl Invalid
                | Some al \<Rightarrow>
                    if al = [] then Inl Invalid else Inr (Some (AList.update key (Value p) al)))
          else if Op p = ''remove''
          then (case sel of
                  None \<Rightarrow> Inl Invalid
                | Some al \<Rightarrow>
                    if comma_ok sel key then Inr (Some (AList.delete key al)) else Inl Invalid)
          else Inl Invalid)"

fun applyPatch :: "jsonPatchOp list \<Rightarrow> gomap \<Rightarrow> k8s_error + gomap" where
  "applyPatch [] sel = Inr sel"
| "applyPatch (p # ps) sel =
     (case applyOp p sel of Inl e \<Rightarrow> Inl e | Inr sel' \<Rightarrow> applyPatch ps sel')"

text \<open>The object found under a name is replaced; every other object stays.\<close>

fun update_service :: "string \<Rightarrow> K8sService \<Rightarrow> K8sService list \<Rightarrow> K8sService list" where
  "update_service name s' [] = []"
| "update_service name s' (s # ss) =
     (if svc_Name s = name then s' # ss else s # update_service name s' ss)"

definition store_ServicesPatch ::
  "string \<Rightarrow> jsonPatchOp list \<Rightarrow> Cluster \<Rightarrow> (k8s_error + K8sService) \<times> Cluster" where
  "store_ServicesPatch name patch c =
     (case find (\<lambda>s. svc_Name s = name) (cl_Services c) of
        None \<Rightarrow> (Inl NotFound, c)
      | Some s \<Rightarrow>
          (case applyPatch patch (svc_Selector s) of
             Inl e \<Rightarrow> (Inl e, c)
           | Inr sel' \<Rightarrow>
               (Inr (s\<lparr>svc_Selector := sel'\<rparr>),
                c\<lparr>cl_Services :=
                    update_service name (s\<lparr>svc_Selector := sel'\<rparr>) (cl_Services c)\<rparr>)))"

definition store :: "Cluster Clientset" where
  "store =
     \<lparr>DeploymentsList = store_DeploymentsList,
      DeploymentsGet = store_DeploymentsGet,
      DeploymentsCreate = store_DeploymentsCreate,
      EndpointsGet = store_EndpointsGet,
      ServicesGet = store_ServicesGet,
      ServicesPatch = store_ServicesPatch\<rparr>"

section \<open>The example cluster of the repository\<close>

text \<open>
  The deployment and the service of the manifest shipped with the source, for an
  application name \<open>app\<close> (the manifest has \<^verbatim>\<open>nginx\<close>), and an endpoint set with one
  address for the service.
\<close>

definition primary_deployment :: "string \<Rightarrow> K8sDeployment" where
  "primary_deployment app =
     \<lparr>dep_ObjectMeta =
        \<lparr>meta_Name = app,
         meta_Labels = Some [(''app'', app), (''track'', ''main'')],
         meta_Annotations = Some [(''devops-tool-htmx'', ''true'')]\<rparr>,
      dep_Spec =
        \<lparr>spec_Replicas = Some 3,
         spec_Selector =
           Some \<lparr>sel_MatchLabels = Some [(''app'', app), (''track'', ''main'')],
                 sel_MatchExpressions = []\<rparr>,
         spec_Template =
           \<lparr>tpl_ObjectMeta =
              \<lparr>meta_Name = [],
               meta_Labels = Some [(''app'', app), (''track'', ''main'')],
               meta_Annotations = None\<rparr>,
            tpl_Spec =
              \<lparr>pod_Containers =
                 [\<lparr>ctr_Name = ''nginx'', ctr_Image = ''nginx:1.25.0-alpine'',
                   ctr_other = ''ports: containerPort 80''\<rparr>],
               pod_other = []\<rparr>\<rparr>,
         spec_other = []\<rparr>,
      dep_Status = \<lparr>status_AvailableReplicas = 3\<rparr>\<rparr>"

definition base_service :: "string \<Rightarrow> K8sService" where
  "base_service app =
     \<lparr>svc_Name = app,
      svc_Selector = Some [(''app'', app), (''track'', ''main'')]\<rparr>"

definition base_endpoints :: "string \<Rightarrow> K8sEndpoints" where
  "base_endpoints app =
     \<lparr>eps_Name = app,
      eps_Subsets =
        [\<lparr>subset_Addresses =
           [\<lparr>addr_IP = ''10.0.0.7'', addr_TargetRef = Some \<lparr>ref_Name = ''pod-0''\<rparr>\<rparr>]\<rparr>]\<rparr>"

definition example_cluster :: "string \<Rightarrow> Cluster" where
  "example_cluster app =
     \<lparr>cl_Deployments = [primary_deployment app],
      cl_Endpoints = [base_endpoints app],
      cl_Services = [base_service app]\<rparr>"

text \<open>
  Variations of the primary deployment: another name, other labels and annotations;
  another image; and the same object with its list of containers emptied.
\<close>

definition relabelled :: "string \<Rightarrow> gomap \<Rightarrow> gomap \<Rightarrow> K8sDeployment" where
  "relabelled n labels annotations =
     (primary_deployment ''nginx'')
       \<lparr>dep_ObjectMeta := \<lparr>meta_Name = n, meta_Labels = labels, meta_Annotations = annotations\<rparr>\<rparr>"

definition reimaged :: "string \<Rightarrow> K8sDeployment" where
  "reimaged img =
     (primary_deployment ''nginx'')
       \<lparr>dep_Spec := (dep_Spec (primary_deployment ''nginx''))
          \<lparr>spec_Template := (spec_Template (dep_Spec (primary_deployment ''nginx'')))
             \<lparr>tpl_Spec :=
                \<lparr>pod_Containers = [\<lparr>ctr_Name = ''web'', ctr_Image = img, ctr_other = []\<rparr>],
                 pod_other = []\<rparr>\<rparr>\<rparr>\<rparr>"

definition two_containers_deployment :: K8sDeployment where
  "two_containers_deployment =
     (primary_deployment ''nginx'')
       \<lparr>dep_ObjectMeta :=
          \<lparr>meta_Name = ''nginx-sidecar'',
           meta_Labels = Some [(''app'', ''nginx''), (''track'', ''side'')],
           meta_Annotations = Some [(''devops-tool-htmx'', ''1'')]\<rparr>,
        dep_Spec := (dep_Spec (primary_deployment ''nginx''))
          \<lparr>spec_Template := (spec_Template (dep_Spec (primary_deployment ''nginx'')))
             \<lparr>tpl_Spec :=
                \<lparr>pod_Containers =
                   [\<lparr>ctr_Name = ''web'', ctr_Image = ''first:1'', ctr_other = []\<rparr>,
                    \<lparr>ctr_Name = ''log'', ctr_Image = ''second:2'', ctr_other = []\<rparr>],
                 pod_other = []\<rparr>\<rparr>\<rparr>\<rparr>"

definition blank_track_deployment :: K8sDeployment where
  "blank_track_deployment =
     relabelled ''nginx-blank'' (Some [(''app'', ''nginx''), (''track'', [])])
       (Some [(''devops-tool-htmx'', ''true'')])"

definition no_containers_deployment :: K8sDeployment where
  "no_containers_deployment =
     (primary_deployment ''nginx'')
       \<lparr>dep_Spec := (dep_Spec (primary_deployment ''nginx''))
          \<lparr>spec_Template := (spec_Template (dep_Spec (primary_deployment ''nginx'')))
             \<lparr>tpl_Spec := \<lparr>pod_Containers = [], pod_other = []\<rparr>\<rparr>\<rparr>\<rparr>"

text \<open>A request whose body parses to \<open>req\<close>, answered in JSON, which is written.\<close>

definition json_request :: "CanaryCreateRequest \<Rightarrow> Ctx" where
  "json_request req =
     \<lparr>ctx_BodyParser = Some req, ctx_HXRequest = ''false'',
      ctx_Render = (\<lambda>appState. True), ctx_JSON = (\<lambda>appState. True)\<rparr>"

section \<open>Properties of the State Projector\<close>

subsection \<open>The loops\<close>

lemma managedDeployments_loop_filter:
  "managedDeployments_loop acc items =
     acc @ filter (\<lambda>v. ParseBool (index (meta_Annotations (dep_ObjectMeta v)) ''devops-tool-htmx'') = Some True
                      \<and> comma_ok (meta_Labels (dep_ObjectMeta v)) ''track'') items"
  by (induction items arbitrary: acc) (auto split: option.splits)

lemma asCustomDeployment_loop_Inr:
  "(\<forall>v \<in> set vs. pod_Containers (tpl_Spec (spec_Template (dep_Spec v))) \<noteq> []
                   \<and> spec_Replicas (dep_Spec v) \<noteq> None) \<Longrightarrow>
   asCustomDeployment_loop acc vs =
     Inr (acc @ map (\<lambda>v. \<lparr>Name = meta_Name (dep_ObjectMeta v),
                     Image = ctr_Image (hd (pod_Containers (tpl_Spec (spec_Template (dep_Spec v))))),
                     Track = index (meta_Labels (dep_ObjectMeta v)) ''track'',
                     Replicas = the (spec_Replicas (dep_Spec v)),
                     AvailableReplicas = status_AvailableReplicas (dep_Status v)\<rparr>) vs)"
  by (induction vs arbitrary: acc) (auto split: list.splits option.splits)

lemma asCustomDeployment_names:
  "asCustomDeployment_loop acc vs = Inr r \<Longrightarrow>
     map Name r = map Name acc @ map (\<lambda>v. meta_Name (dep_ObjectMeta v)) vs"
  by (induction vs arbitrary: acc r) (auto split: list.splits option.splits)

text \<open>What a successful read says about the three answers of the client.\<close>

lemma GetAppState_Inr_D:
  assumes "GetAppState name k8s c = Inr st"
  shows "\<exists>items endpoint svc.
           DeploymentsList k8s [(''app'', name)] c = Inr items \<and>
           EndpointsGet k8s name c = Inr endpoint \<and>
           ServicesGet k8s name c = Inr svc \<and>
           CanaryEnabled st = (index (svc_Selector svc) ''track'' \<noteq> ''main'') \<and>
           asCustomDeployment (managedDeployments_loop [] items) = Inr (Deployments st) \<and>
           asCustomEndpoint (case eps_Subsets endpoint of [] \<Rightarrow> [] | s0 # ss \<Rightarrow> subset_Addresses s0)
             = Inr (Endpoints st)"
  using assms by (auto simp: GetAppState_def Let_def split: sum.splits)

lemma index_eq_main: "(index m ''track'' = ''main'') = (entries m ''track'' = Some ''main'')"
  by (auto simp: index_def split: option.splits)

subsection \<open>Canary traffic is reported off exactly for the selector \<^verbatim>\<open>track=main\<close>\<close>

text \<open>
  C1. Whenever the read succeeds, \<open>CanaryEnabled\<close> is false if and only if the selector
  of the routing service has the key \<^verbatim>\<open>track\<close> with exactly the value \<^verbatim>\<open>main\<close>; it is
  true for every other value and when the key is absent.
\<close>

theorem canaryEnabled_iff_track_not_main:
  assumes "GetAppState name k8s c = Inr st" and "ServicesGet k8s name c = Inr svc"
  shows "(CanaryEnabled st = False) = (entries (svc_Selector svc) ''track'' = Some ''main'')
         \<and> (entries (svc_Selector svc) ''track'' = None \<longrightarrow> CanaryEnabled st = True)"
  using GetAppState_Inr_D [OF assms(1)] assms(2) by (auto simp: index_eq_main)

theorem canaryEnabled_iff_track_not_main_witness:
  "GetAppState ''nginx'' store (example_cluster ''nginx'') =
     Inr \<lparr>CanaryEnabled = False,
          Deployments = [\<lparr>Name = ''nginx'', Image = ''nginx:1.25.0-alpine'', Track = ''main'',
                          Replicas = 3, AvailableReplicas = 3\<rparr>],
          Endpoints = [\<lparr>TargetPod = ''pod-0'', Ip = ''10.0.0.7''\<rparr>]\<rparr>
   \<and> ServicesGet store ''nginx'' (example_cluster ''nginx'') = Inr (base_service ''nginx'')
   \<and> entries (svc_Selector (base_service ''nginx'')) ''track'' = Some ''main''
   \<and> (\<exists>st. GetAppState ''nginx'' store
          ((example_cluster ''nginx'')
             \<lparr>cl_Services := [\<lparr>svc_Name = ''nginx'', svc_Selector = Some [(''app'', ''nginx'')]\<rparr>]\<rparr>)
           = Inr st \<and> CanaryEnabled st = True)"
proof -
  let ?st = "\<lparr>CanaryEnabled = False,
          Deployments = [\<lparr>Name = ''nginx'', Image = ''nginx:1.25.0-alpine'', Track = ''main'',
                          Replicas = 3, AvailableReplicas = 3\<rparr>],
          Endpoints = [\<lparr>TargetPod = ''pod-0'', Ip = ''10.0.0.7''\<rparr>]\<rparr>"
  let ?svc = "\<lparr>svc_Name = ''nginx'', svc_Selector = Some [(''app'', ''nginx'')]\<rparr>"
  let ?c = "(example_cluster ''nginx'')\<lparr>cl_Services := [?svc]\<rparr>"
  have a: "GetAppState ''nginx'' store (example_cluster ''nginx'') = Inr ?st"
    by code_simp
  have b: "ServicesGet store ''nginx'' (example_cluster ''nginx'') = Inr (base_service ''nginx'')"
    by code_simp
  have a': "GetAppState ''nginx'' store ?c = Inr (?st\<lparr>CanaryEnabled := True\<rparr>)"
    by code_simp
  have b': "ServicesGet store ''nginx'' ?c = Inr ?svc"
    by code_simp
  have n: "entries (svc_Selector ?svc) ''track'' = None"
    by (simp add: entries_def)
  from canaryEnabled_iff_track_not_main [OF a b] a b
  have "GetAppState ''nginx'' store (example_cluster ''nginx'') = Inr ?st
        \<and> ServicesGet store ''nginx'' (example_cluster ''nginx'') = Inr (base_service ''nginx'')
        \<and> entries (svc_Selector (base_service ''nginx'')) ''track'' = Some ''main''"
    by simp
  moreover from canaryEnabled_iff_track_not_main [OF a' b'] n a'
  have "\<exists>st. GetAppState ''nginx'' store ?c = Inr st \<and> CanaryEnabled st = True"
    by blast
  ultimately show ?thesis by blast
qed

subsection \<open>A read is all or nothing\<close>

text \<open>
  C9. If the listing of the workloads fails, or the fetch of the endpoint set fails after
  the listing succeeded, or the fetch of the routing service fails after both succeeded,
  then the read returns that error and no state.
\<close>

theorem GetAppState_all_or_nothing:
  "(DeploymentsList k8s [(''app'', name)] c = Inl e \<longrightarrow> GetAppState name k8s c = Inl (Error e)) \<and>
   (DeploymentsList k8s [(''app'', name)] c = Inr items \<and> EndpointsGet k8s name c = Inl e
      \<longrightarrow> GetAppState name k8s c = Inl (Error e)) \<and>
   (DeploymentsList k8s [(''app'', name)] c = Inr items \<and> EndpointsGet k8s name c = Inr endpoint
      \<and> ServicesGet k8s name c = Inl e
      \<longrightarrow> GetAppState name k8s c = Inl (Error e))"
  by (simp add: GetAppState_def Let_def)

theorem GetAppState_all_or_nothing_witness:
  "GetAppState ''nginx'' (store\<lparr>DeploymentsList := \<lambda>sel c. Inl Unavailable\<rparr>) (example_cluster ''nginx'')
     = Inl (Error Unavailable)
   \<and> GetAppState ''nginx'' store ((example_cluster ''nginx'')\<lparr>cl_Endpoints := []\<rparr>) = Inl (Error NotFound)
   \<and> GetAppState ''nginx'' store ((example_cluster ''nginx'')\<lparr>cl_Services := []\<rparr>) = Inl (Error NotFound)"
proof -
  let ?k = "store\<lparr>DeploymentsList := \<lambda>sel c. Inl Unavailable\<rparr>"
  let ?c = "example_cluster ''nginx''"
  have l1: "DeploymentsList ?k [(''app'', ''nginx'')] ?c = Inl Unavailable"
    by simp
  have l2: "DeploymentsList store [(''app'', ''nginx'')] (?c\<lparr>cl_Endpoints := []\<rparr>) = Inr [primary_deployment ''nginx'']
            \<and> EndpointsGet store ''nginx'' (?c\<lparr>cl_Endpoints := []\<rparr>) = Inl NotFound"
    by code_simp
  have l3: "DeploymentsList store [(''app'', ''nginx'')] (?c\<lparr>cl_Services := []\<rparr>) = Inr [primary_deployment ''nginx'']
            \<and> EndpointsGet store ''nginx'' (?c\<lparr>cl_Services := []\<rparr>) = Inr (base_endpoints ''nginx'')
            \<and> ServicesGet store ''nginx'' (?c\<lparr>cl_Services := []\<rparr>) = Inl NotFound"
    by code_simp
  from GetAppState_all_or_nothing [of ?k "''nginx''" ?c Unavailable] l1
  have "GetAppState ''nginx'' ?k ?c = Inl (Error Unavailable)" by blast
  moreover from GetAppState_all_or_nothing [of store "''nginx''" "?c\<lparr>cl_Endpoints := []\<rparr>" NotFound] l2
  have "GetAppState ''nginx'' store (?c\<lparr>cl_Endpoints := []\<rparr>) = Inl (Error NotFound)" by blast
  moreover from GetAppState_all_or_nothing [of store "''nginx''" "?c\<lparr>cl_Services := []\<rparr>" NotFound] l3
  have "GetAppState ''nginx'' store (?c\<lparr>cl_Services := []\<rparr>) = Inl (Error NotFound)" by blast
  ultimately show ?thesis by blast
qed


subsection \<open>Which workloads the read surfaces\<close>

text \<open>
  C2, as amended. The filter keeps exactly the objects whose annotation
  \<^verbatim>\<open>devops-tool-htmx\<close> parses as true and whose labels have the key \<^verbatim>\<open>track\<close>, whatever
  its value, the empty string included. The objects it drops have no effect on the read at
  all, error or not, however many there are: the read of a listing equals the read of the
  listing with the dropped objects taken out. A successful read returns one entry per kept
  object, in the order of the listing.
\<close>

theorem managed_filter:
  "managedDeployments_loop [] items =
     filter (\<lambda>v. ParseBool (index (meta_Annotations (dep_ObjectMeta v)) ''devops-tool-htmx'') = Some True
                 \<and> comma_ok (meta_Labels (dep_ObjectMeta v)) ''track'') items
   \<and> GetAppState name (k8s\<lparr>DeploymentsList := \<lambda>sel c. Inr items\<rparr>) c =
     GetAppState name (k8s\<lparr>DeploymentsList := \<lambda>sel c. Inr
        (filter (\<lambda>v. ParseBool (index (meta_Annotations (dep_ObjectMeta v)) ''devops-tool-htmx'') = Some True
                 \<and> comma_ok (meta_Labels (dep_ObjectMeta v)) ''track'') items)\<rparr>) c
   \<and> (DeploymentsList k8s [(''app'', name)] c = Inr items \<and> GetAppState name k8s c = Inr st \<longrightarrow>
        map Name (Deployments st) = map (\<lambda>v. meta_Name (dep_ObjectMeta v))
          (filter (\<lambda>v. ParseBool (index (meta_Annotations (dep_ObjectMeta v)) ''devops-tool-htmx'') = Some True
                 \<and> comma_ok (meta_Labels (dep_ObjectMeta v)) ''track'') items))"
proof (intro conjI impI)
  show "managedDeployments_loop [] items =
     filter (\<lambda>v. ParseBool (index (meta_Annotations (dep_ObjectMeta v)) ''devops-tool-htmx'') = Some True
                 \<and> comma_ok (meta_Labels (dep_ObjectMeta v)) ''track'') items"
    by (simp add: managedDeployments_loop_filter)
next
  show "GetAppState name (k8s\<lparr>DeploymentsList := \<lambda>sel c. Inr items\<rparr>) c =
     GetAppState name (k8s\<lparr>DeploymentsList := \<lambda>sel c. Inr
        (filter (\<lambda>v. ParseBool (index (meta_Annotations (dep_ObjectMeta v)) ''devops-tool-htmx'') = Some True
                 \<and> comma_ok (meta_Labels (dep_ObjectMeta v)) ''track'') items)\<rparr>) c"
    by (simp add: GetAppState_def managedDeployments_loop_filter Let_def split: sum.splits)
next
  assume a: "DeploymentsList k8s [(''app'', name)] c = Inr items \<and> GetAppState name k8s c = Inr st"
  from GetAppState_Inr_D [of name k8s c st] a
  have "asCustomDeployment (managedDeployments_loop [] items) = Inr (Deployments st)" by auto
  then show "map Name (Deployments st) = map (\<lambda>v. meta_Name (dep_ObjectMeta v))
          (filter (\<lambda>v. ParseBool (index (meta_Annotations (dep_ObjectMeta v)) ''devops-tool-htmx'') = Some True
                 \<and> comma_ok (meta_Labels (dep_ObjectMeta v)) ''track'') items)"
    using asCustomDeployment_names [of "[]"]
    by (simp add: asCustomDeployment_def managedDeployments_loop_filter)
qed

text \<open>
  A listing of five objects: the primary, one without the annotation, one whose annotation
  is not a boolean, one annotated \<^verbatim>\<open>false\<close>, and one without the label. Only the primary
  is surfaced.
\<close>

theorem managed_filter_witness:
  "map Name (Deployments
     \<lparr>CanaryEnabled = False,
      Deployments = [\<lparr>Name = ''nginx'', Image = ''nginx:1.25.0-alpine'', Track = ''main'',
                      Replicas = 3, AvailableReplicas = 3\<rparr>],
      Endpoints = [\<lparr>TargetPod = ''pod-0'', Ip = ''10.0.0.7''\<rparr>]\<rparr>) =
   map (\<lambda>v. meta_Name (dep_ObjectMeta v))
     (filter (\<lambda>v. ParseBool (index (meta_Annotations (dep_ObjectMeta v)) ''devops-tool-htmx'') = Some True
                  \<and> comma_ok (meta_Labels (dep_ObjectMeta v)) ''track'')
        [primary_deployment ''nginx'',
         relabelled ''a'' (Some [(''app'', ''nginx''), (''track'', ''main'')]) None,
         relabelled ''b'' (Some [(''app'', ''nginx''), (''track'', ''main'')]) (Some [(''devops-tool-htmx'', ''yes'')]),
         relabelled ''c'' (Some [(''app'', ''nginx''), (''track'', ''main'')]) (Some [(''devops-tool-htmx'', ''false'')]),
         relabelled ''d'' (Some [(''app'', ''nginx'')]) (Some [(''devops-tool-htmx'', ''true'')])])"
proof -
  let ?items = "[primary_deployment ''nginx'',
         relabelled ''a'' (Some [(''app'', ''nginx''), (''track'', ''main'')]) None,
         relabelled ''b'' (Some [(''app'', ''nginx''), (''track'', ''main'')]) (Some [(''devops-tool-htmx'', ''yes'')]),
         relabelled ''c'' (Some [(''app'', ''nginx''), (''track'', ''main'')]) (Some [(''devops-tool-htmx'', ''false'')]),
         relabelled ''d'' (Some [(''app'', ''nginx'')]) (Some [(''devops-tool-htmx'', ''true'')])]"
  let ?c = "(example_cluster ''nginx'')\<lparr>cl_Deployments := ?items\<rparr>"
  let ?st = "\<lparr>CanaryEnabled = False,
      Deployments = [\<lparr>Name = ''nginx'', Image = ''nginx:1.25.0-alpine'', Track = ''main'',
                      Replicas = 3, AvailableReplicas = 3\<rparr>],
      Endpoints = [\<lparr>TargetPod = ''pod-0'', Ip = ''10.0.0.7''\<rparr>]\<rparr>"
  have a: "DeploymentsList store [(''app'', ''nginx'')] ?c = Inr ?items"
    by code_simp
  have b: "GetAppState ''nginx'' store ?c = Inr ?st"
    by code_simp
  from managed_filter [of ?items "''nginx''" store ?c ?st] a b show ?thesis by blast
qed

text \<open>
  The specification asks for a non-empty \<^verbatim>\<open>track\<close> label. An object whose label
  \<^verbatim>\<open>track\<close> is present and empty is surfaced all the same, with an empty track.
\<close>

theorem blank_track_surfaced:
  "index (meta_Labels (dep_ObjectMeta blank_track_deployment)) ''track'' = [] \<and>
   GetAppState ''nginx'' store ((example_cluster ''nginx'')\<lparr>cl_Deployments := [blank_track_deployment]\<rparr>) =
     Inr \<lparr>CanaryEnabled = False,
          Deployments = [\<lparr>Name = ''nginx-blank'', Image = ''nginx:1.25.0-alpine'', Track = [],
                          Replicas = 3, AvailableReplicas = 3\<rparr>],
          Endpoints = [\<lparr>TargetPod = ''pod-0'', Ip = ''10.0.0.7''\<rparr>]\<rparr>"
  by code_simp

subsection \<open>The image of a workload\<close>

lemma asCustomDeployment_loop_Inr_D:
  "asCustomDeployment_loop acc vs = Inr r \<Longrightarrow>
   (\<forall>v \<in> set vs. pod_Containers (tpl_Spec (spec_Template (dep_Spec v))) \<noteq> []
                  \<and> spec_Replicas (dep_Spec v) \<noteq> None)"
  by (induction vs arbitrary: acc) (auto split: list.splits option.splits)

lemma asCustomEndpoint_loop_Inr:
  "(\<forall>a \<in> set vs. addr_TargetRef a \<noteq> None) \<Longrightarrow>
   asCustomEndpoint_loop acc vs =
     Inr (acc @ map (\<lambda>a. \<lparr>TargetPod = ref_Name (the (addr_TargetRef a)), Ip = addr_IP a\<rparr>) vs)"
  by (induction vs arbitrary: acc) (auto split: option.splits)

text \<open>The entries of a successful read, from the kept objects.\<close>

lemma GetAppState_Deployments:
  assumes "DeploymentsList k8s [(''app'', name)] c = Inr items"
    and "GetAppState name k8s c = Inr st"
  shows "(\<forall>v \<in> set (managedDeployments_loop [] items).
            pod_Containers (tpl_Spec (spec_Template (dep_Spec v))) \<noteq> []) \<and>
         Deployments st =
           map (\<lambda>v. \<lparr>Name = meta_Name (dep_ObjectMeta v),
                     Image = ctr_Image (hd (pod_Containers (tpl_Spec (spec_Template (dep_Spec v))))),
                     Track = index (meta_Labels (dep_ObjectMeta v)) ''track'',
                     Replicas = the (spec_Replicas (dep_Spec v)),
                     AvailableReplicas = status_AvailableReplicas (dep_Status v)\<rparr>)
             (managedDeployments_loop [] items)"
proof -
  from GetAppState_Inr_D [OF assms(2)] assms(1)
  have a: "asCustomDeployment_loop [] (managedDeployments_loop [] items) = Inr (Deployments st)"
    by (auto simp: asCustomDeployment_def)
  note ok = asCustomDeployment_loop_Inr_D [OF a]
  from asCustomDeployment_loop_Inr [OF ok, of "[]"] a ok show ?thesis by simp
qed

text \<open>
  C7, as amended. When the three fetches of a read succeed, every kept object declares at
  least one container and has its replica count set, and every address of the first
  subset of the endpoint set has a target reference, the read returns a state with one
  entry per kept object, in the order of the listing, and the image of each entry is the
  image of the first declared container of its object. And whenever a read returns a state
  at all, every kept object declares a container and the entries are those. The source
  has no error for an object without containers.
\<close>

theorem GetAppState_image_first_container:
  "(DeploymentsList k8s [(''app'', name)] c = Inr items
      \<and> EndpointsGet k8s name c = Inr endpoint
      \<and> ServicesGet k8s name c = Inr svc
      \<and> (\<forall>v \<in> set (managedDeployments_loop [] items).
            pod_Containers (tpl_Spec (spec_Template (dep_Spec v))) \<noteq> []
            \<and> spec_Replicas (dep_Spec v) \<noteq> None)
      \<and> (\<forall>a \<in> set (case eps_Subsets endpoint of [] \<Rightarrow> [] | s0 # ss \<Rightarrow> subset_Addresses s0).
            addr_TargetRef a \<noteq> None)
    \<longrightarrow> (\<exists>st. GetAppState name k8s c = Inr st \<and>
           length (Deployments st) = length (managedDeployments_loop [] items) \<and>
           (\<forall>i < length (managedDeployments_loop [] items).
              Name (Deployments st ! i) =
                meta_Name (dep_ObjectMeta (managedDeployments_loop [] items ! i)) \<and>
              Image (Deployments st ! i) =
                ctr_Image (hd (pod_Containers (tpl_Spec (spec_Template (dep_Spec
                  (managedDeployments_loop [] items ! i)))))))))
   \<and> (DeploymentsList k8s [(''app'', name)] c = Inr items \<and> GetAppState name k8s c = Inr st
    \<longrightarrow> length (Deployments st) = length (managedDeployments_loop [] items) \<and>
        (\<forall>i < length (managedDeployments_loop [] items).
           pod_Containers (tpl_Spec (spec_Template (dep_Spec
             (managedDeployments_loop [] items ! i)))) \<noteq> [] \<and>
           Name (Deployments st ! i) =
             meta_Name (dep_ObjectMeta (managedDeployments_loop [] items ! i)) \<and>
           Image (Deployments st ! i) =
             ctr_Image (hd (pod_Containers (tpl_Spec (spec_Template (dep_Spec
               (managedDeployments_loop [] items ! i))))))))"
proof (rule conjI; rule impI)
  assume h: "DeploymentsList k8s [(''app'', name)] c = Inr items
      \<and> EndpointsGet k8s name c = Inr endpoint
      \<and> ServicesGet k8s name c = Inr svc
      \<and> (\<forall>v \<in> set (managedDeployments_loop [] items).
            pod_Containers (tpl_Spec (spec_Template (dep_Spec v))) \<noteq> []
            \<and> spec_Replicas (dep_Spec v) \<noteq> None)
      \<and> (\<forall>a \<in> set (case eps_Subsets endpoint of [] \<Rightarrow> [] | s0 # ss \<Rightarrow> subset_Addresses s0).
            addr_TargetRef a \<noteq> None)"
  then have ds: "\<exists>ds. asCustomDeployment (managedDeployments_loop [] items) = Inr ds"
    using asCustomDeployment_loop_Inr [of "managedDeployments_loop [] items" "[]"]
    by (simp add: asCustomDeployment_def)
  from h have es: "\<exists>es. asCustomEndpoint
        (case eps_Subsets endpoint of [] \<Rightarrow> [] | s0 # ss \<Rightarrow> subset_Addresses s0) = Inr es"
    using asCustomEndpoint_loop_Inr
            [of "case eps_Subsets endpoint of [] \<Rightarrow> [] | s0 # ss \<Rightarrow> subset_Addresses s0" "[]"]
    by (simp add: asCustomEndpoint_def)
  from h ds es obtain st where st: "GetAppState name k8s c = Inr st"
    by (auto simp: GetAppState_def Let_def)
  from h GetAppState_Deployments [OF _ st, of items]
  have "length (Deployments st) = length (managedDeployments_loop [] items) \<and>
        (\<forall>i < length (managedDeployments_loop [] items).
           Name (Deployments st ! i) =
             meta_Name (dep_ObjectMeta (managedDeployments_loop [] items ! i)) \<and>
           Image (Deployments st ! i) =
             ctr_Image (hd (pod_Containers (tpl_Spec (spec_Template (dep_Spec
               (managedDeployments_loop [] items ! i)))))))"
    by simp
  with st show "\<exists>st. GetAppState name k8s c = Inr st \<and>
           length (Deployments st) = length (managedDeployments_loop [] items) \<and>
           (\<forall>i < length (managedDeployments_loop [] items).
              Name (Deployments st ! i) =
                meta_Name (dep_ObjectMeta (managedDeployments_loop [] items ! i)) \<and>
              Image (Deployments st ! i) =
                ctr_Image (hd (pod_Containers (tpl_Spec (spec_Template (dep_Spec
                  (managedDeployments_loop [] items ! i)))))))"
    by blast
next
  assume h: "DeploymentsList k8s [(''app'', name)] c = Inr items \<and> GetAppState name k8s c = Inr st"
  from GetAppState_Deployments [of k8s name c items st] h
  show "length (Deployments st) = length (managedDeployments_loop [] items) \<and>
        (\<forall>i < length (managedDeployments_loop [] items).
           pod_Containers (tpl_Spec (spec_Template (dep_Spec
             (managedDeployments_loop [] items ! i)))) \<noteq> [] \<and>
           Name (Deployments st ! i) =
             meta_Name (dep_ObjectMeta (managedDeployments_loop [] items ! i)) \<and>
           Image (Deployments st ! i) =
             ctr_Image (hd (pod_Containers (tpl_Spec (spec_Template (dep_Spec
               (managedDeployments_loop [] items ! i)))))))"
    by simp
qed

text \<open>
  A read of two kept objects, the second with two containers: its entry has the image of
  the first of them.
\<close>

theorem GetAppState_image_first_container_witness:
  "\<exists>st. GetAppState ''nginx'' store
           ((example_cluster ''nginx'')
              \<lparr>cl_Deployments := [primary_deployment ''nginx'', two_containers_deployment]\<rparr>) = Inr st \<and>
        map Name (Deployments st) = [''nginx'', ''nginx-sidecar''] \<and>
        map Image (Deployments st) = [''nginx:1.25.0-alpine'', ''first:1'']"
proof -
  let ?items = "[primary_deployment ''nginx'', two_containers_deployment]"
  let ?c = "(example_cluster ''nginx'')\<lparr>cl_Deployments := ?items\<rparr>"
  have k: "managedDeployments_loop [] ?items = ?items"
    by code_simp
  have h: "DeploymentsList store [(''app'', ''nginx'')] ?c = Inr ?items
      \<and> EndpointsGet store ''nginx'' ?c = Inr (base_endpoints ''nginx'')
      \<and> ServicesGet store ''nginx'' ?c = Inr (base_service ''nginx'')
      \<and> (\<forall>v \<in> set (managedDeployments_loop [] ?items).
            pod_Containers (tpl_Spec (spec_Template (dep_Spec v))) \<noteq> []
            \<and> spec_Replicas (dep_Spec v) \<noteq> None)
      \<and> (\<forall>a \<in> set (case eps_Subsets (base_endpoints ''nginx'') of [] \<Rightarrow> []
                       | s0 # ss \<Rightarrow> subset_Addresses s0).
            addr_TargetRef a \<noteq> None)"
    by code_simp
  from GetAppState_image_first_container
         [of store "''nginx''" ?c ?items "base_endpoints ''nginx''" "base_service ''nginx''"] h
  obtain st where st: "GetAppState ''nginx'' store ?c = Inr st"
    and len: "length (Deployments st) = length (managedDeployments_loop [] ?items)"
    and each: "\<forall>i < length (managedDeployments_loop [] ?items).
              Name (Deployments st ! i) =
                meta_Name (dep_ObjectMeta (managedDeployments_loop [] ?items ! i)) \<and>
              Image (Deployments st ! i) =
                ctr_Image (hd (pod_Containers (tpl_Spec (spec_Template (dep_Spec
                  (managedDeployments_loop [] ?items ! i))))))"
    by blast
  from len have l2: "length (Deployments st) = 2" unfolding k by simp
  from each have e0: "Name (Deployments st ! 0) = ''nginx'' \<and> Image (Deployments st ! 0) = ''nginx:1.25.0-alpine''"
    unfolding k by (simp add: primary_deployment_def)
  from each have e1: "Name (Deployments st ! 1) = ''nginx-sidecar'' \<and> Image (Deployments st ! 1) = ''first:1''"
    unfolding k by (simp add: two_containers_deployment_def primary_deployment_def)
  from l2 obtain x y where xy: "Deployments st = [x, y]"
    by (cases "Deployments st"; cases "tl (Deployments st)") auto
  with e0 e1 have m: "map Name (Deployments st) = [''nginx'', ''nginx-sidecar''] \<and>
        map Image (Deployments st) = [''nginx:1.25.0-alpine'', ''first:1'']"
    by simp
  show ?thesis
    by (rule exI [of _ st], rule conjI, rule st, rule m)
qed

text \<open>
  The specification has the read fail with an error of its own on a kept object without
  containers. The index expression of line 63 panics on it, and the read ends in that
  panic, not in an error value.
\<close>

theorem no_containers_panics:
  "GetAppState ''nginx'' store ((example_cluster ''nginx'')\<lparr>cl_Deployments := [no_containers_deployment]\<rparr>)
     = Inl (Panic IndexOutOfRange)
   \<and> crashes (GetAppState ''nginx'' store
        ((example_cluster ''nginx'')\<lparr>cl_Deployments := [no_containers_deployment]\<rparr>))"
  by code_simp

section \<open>Properties of the Canary Spawner\<close>

lemma SplitN_2:
  "SplitN s sep 2 =
     (if sep \<in> set s then [takeWhile (\<lambda>c. c \<noteq> sep) s, tl (dropWhile (\<lambda>c. c \<noteq> sep) s)] else [s])"
  by (simp add: SplitN_def)

lemma hd_SplitN_2: "\<exists>rest. SplitN s sep 2 = takeWhile (\<lambda>c. c \<noteq> sep) s # rest"
proof (cases "sep \<in> set s")
  case True
  then show ?thesis by (simp add: SplitN_2)
next
  case False
  then have "SplitN s sep 2 = [s]" by (simp add: SplitN_2)
  moreover from False have "takeWhile (\<lambda>c. c \<noteq> sep) s = s"
    by (auto simp: takeWhile_eq_all_conv)
  ultimately show ?thesis by metis
qed

text \<open>The canary that is built, field by field, when no statement panics.\<close>

lemma canary_deployment_Inr_D:
  assumes "canary_deployment name rnd req p = Inr d"
  shows "\<exists>selector ml tls c0 cs.
           spec_Selector (dep_Spec p) = Some selector \<and>
           sel_MatchLabels selector = Some ml \<and>
           meta_Labels (tpl_ObjectMeta (spec_Template (dep_Spec p))) = Some tls \<and>
           pod_Containers (tpl_Spec (spec_Template (dep_Spec p))) = c0 # cs \<and>
           d = \<lparr>dep_ObjectMeta =
                  \<lparr>meta_Name = name @ ''-canary-'' @ ReplaceAll rnd (CHR ''_'') (CHR ''-''),
                   meta_Labels = Some [(''app'', ''nginx''), (''track'', ''canary'')],
                   meta_Annotations = Some [(''devops-tool-htmx'', ''true'')]\<rparr>,
                dep_Spec = (dep_Spec p)
                  \<lparr>spec_Replicas := Some (req_Replicas req),
                   spec_Selector := Some (selector\<lparr>sel_MatchLabels := Some (AList.update ''track'' ''canary'' ml)\<rparr>),
                   spec_Template := (spec_Template (dep_Spec p))
                     \<lparr>tpl_ObjectMeta := (tpl_ObjectMeta (spec_Template (dep_Spec p)))
                        \<lparr>meta_Labels := Some (AList.update ''track'' ''canary'' tls)\<rparr>,
                      tpl_Spec := (tpl_Spec (spec_Template (dep_Spec p)))
                        \<lparr>pod_Containers :=
                           c0\<lparr>ctr_Image := takeWhile (\<lambda>c. c \<noteq> CHR '':'') (ctr_Image c0) @ '':'' @ req_Tag req\<rparr> # cs\<rparr>\<rparr>\<rparr>,
                dep_Status = \<lparr>status_AvailableReplicas = 0\<rparr>\<rparr>"
proof -
  from assms obtain selector where s: "spec_Selector (dep_Spec p) = Some selector"
    by (auto simp: canary_deployment_def Let_def assign_def split: option.splits)
  from assms s obtain ml where ml: "sel_MatchLabels selector = Some ml"
    by (auto simp: canary_deployment_def Let_def assign_def split: option.splits)
  from assms s ml obtain tls where tls: "meta_Labels (tpl_ObjectMeta (spec_Template (dep_Spec p))) = Some tls"
    by (auto simp: canary_deployment_def Let_def assign_def split: option.splits)
  from assms s ml tls obtain c0 cs where cs: "pod_Containers (tpl_Spec (spec_Template (dep_Spec p))) = c0 # cs"
    by (auto simp: canary_deployment_def Let_def assign_def split: list.splits)
  obtain rest where sp: "SplitN (ctr_Image c0) (CHR '':'') 2 = takeWhile (\<lambda>c. c \<noteq> CHR '':'') (ctr_Image c0) # rest"
    using hd_SplitN_2 by blast
  from assms s ml tls cs sp show ?thesis
    by (simp add: canary_deployment_def Let_def assign_def)
qed

lemma canary_deployment_Inr_I:
  assumes "spec_Selector (dep_Spec p) = Some selector"
    and "sel_MatchLabels selector = Some ml"
    and "meta_Labels (tpl_ObjectMeta (spec_Template (dep_Spec p))) = Some tls"
    and "pod_Containers (tpl_Spec (spec_Template (dep_Spec p))) = c0 # cs"
  shows "\<exists>d. canary_deployment name rnd req p = Inr d"
proof -
  obtain rest where sp: "SplitN (ctr_Image c0) (CHR '':'') 2 = takeWhile (\<lambda>c. c \<noteq> CHR '':'') (ctr_Image c0) # rest"
    using hd_SplitN_2 by blast
  with assms show ?thesis
    by (simp add: canary_deployment_def Let_def assign_def)
qed

text \<open>What the handler leaves in the store.\<close>

lemma create_canary_store_cases:
  assumes "create_canary ctx name rnd store c = (r, c')"
  shows "c' = c \<or>
         (\<exists>req p d. ctx_BodyParser ctx = Some req \<and> store_DeploymentsGet name c = Inr p \<and>
                 canary_deployment name rnd req p = Inr d \<and>
                 c' = c\<lparr>cl_Deployments := cl_Deployments c @ [d]\<rparr>)"
  using assms
  by (auto simp: create_canary_def store_def store_DeploymentsCreate_def
           split: sum.splits option.splits prod.splits)

subsection \<open>The image of the canary\<close>

text \<open>
  C3. For a primary on which the handler does not panic (a selector with match labels,
  template labels, at least one container), the canary is built and the image of its first
  container is the part of the primary's image before the first colon, a colon, and the
  tag of the request; every other container is unchanged. When the primary's image has no
  colon, that is the whole image, a colon and the tag.
\<close>

theorem canary_image:
  assumes "spec_Selector (dep_Spec p) = Some selector"
    and "sel_MatchLabels selector = Some ml"
    and "meta_Labels (tpl_ObjectMeta (spec_Template (dep_Spec p))) = Some tls"
    and "pod_Containers (tpl_Spec (spec_Template (dep_Spec p))) = c0 # cs"
  shows "\<exists>d. canary_deployment name rnd req p = Inr d \<and>
           pod_Containers (tpl_Spec (spec_Template (dep_Spec d))) =
             c0\<lparr>ctr_Image := takeWhile (\<lambda>c. c \<noteq> CHR '':'') (ctr_Image c0) @ '':'' @ req_Tag req\<rparr> # cs \<and>
           (CHR '':'' \<notin> set (ctr_Image c0) \<longrightarrow>
              ctr_Image (hd (pod_Containers (tpl_Spec (spec_Template (dep_Spec d)))))
                = ctr_Image c0 @ '':'' @ req_Tag req) \<and>
           (\<forall>repo rest. ctr_Image c0 = repo @ '':'' @ rest \<and> CHR '':'' \<notin> set repo \<longrightarrow>
              ctr_Image (hd (pod_Containers (tpl_Spec (spec_Template (dep_Spec d)))))
                = repo @ '':'' @ req_Tag req)"
proof -
  from canary_deployment_Inr_I [OF assms] obtain d where d: "canary_deployment name rnd req p = Inr d"
    by blast
  from canary_deployment_Inr_D [OF d] assms
  have cs: "pod_Containers (tpl_Spec (spec_Template (dep_Spec d))) =
             c0\<lparr>ctr_Image := takeWhile (\<lambda>c. c \<noteq> CHR '':'') (ctr_Image c0) @ '':'' @ req_Tag req\<rparr> # cs"
    by auto
  have a: "CHR '':'' \<notin> set (ctr_Image c0) \<Longrightarrow>
             takeWhile (\<lambda>c. c \<noteq> CHR '':'') (ctr_Image c0) = ctr_Image c0"
    by (auto simp: takeWhile_eq_all_conv)
  have b: "takeWhile (\<lambda>c. c \<noteq> CHR '':'') (ctr_Image c0) = repo"
    if "ctr_Image c0 = repo @ '':'' @ rest" "CHR '':'' \<notin> set repo" for repo rest
  proof -
    have "takeWhile (\<lambda>c. c \<noteq> CHR '':'') (repo @ CHR '':'' # rest) = repo"
      using that(2) by (intro takeWhile_tail [THEN trans]) auto
    with that(1) show ?thesis by simp
  qed
  from d cs a b show ?thesis by auto
qed

theorem canary_image_witness:
  "(\<exists>d. canary_deployment ''nginx'' ''happy_turing'' \<lparr>req_Tag = ''beta'', req_Replicas = 1\<rparr>
            (primary_deployment ''nginx'') = Inr d \<and>
         ctr_Image (hd (pod_Containers (tpl_Spec (spec_Template (dep_Spec d))))) = ''nginx:beta'') \<and>
   (\<exists>d. canary_deployment ''nginx'' ''happy_turing'' \<lparr>req_Tag = ''v2'', req_Replicas = 1\<rparr>
            (reimaged ''myimage'') = Inr d \<and>
         ctr_Image (hd (pod_Containers (tpl_Spec (spec_Template (dep_Spec d))))) = ''myimage:v2'')"
proof -
  let ?sel = "\<lparr>sel_MatchLabels = Some [(''app'', ''nginx''), (''track'', ''main'')],
               sel_MatchExpressions = []\<rparr>"
  let ?ls = "[(''app'', ''nginx''), (''track'', ''main'')]"
  have p1: "spec_Selector (dep_Spec (primary_deployment ''nginx'')) = Some ?sel"
    by (simp add: primary_deployment_def)
  have p2: "sel_MatchLabels ?sel = Some ?ls" by simp
  have p3: "meta_Labels (tpl_ObjectMeta (spec_Template (dep_Spec (primary_deployment ''nginx'')))) = Some ?ls"
    by (simp add: primary_deployment_def)
  have p4: "pod_Containers (tpl_Spec (spec_Template (dep_Spec (primary_deployment ''nginx'')))) =
              \<lparr>ctr_Name = ''nginx'', ctr_Image = ''nginx:1.25.0-alpine'',
               ctr_other = ''ports: containerPort 80''\<rparr> # []"
    by (simp add: primary_deployment_def)
  have q1: "spec_Selector (dep_Spec (reimaged ''myimage'')) = Some ?sel"
    by (simp add: reimaged_def primary_deployment_def)
  have q3: "meta_Labels (tpl_ObjectMeta (spec_Template (dep_Spec (reimaged ''myimage'')))) = Some ?ls"
    by (simp add: reimaged_def primary_deployment_def)
  have q4: "pod_Containers (tpl_Spec (spec_Template (dep_Spec (reimaged ''myimage'')))) =
              \<lparr>ctr_Name = ''web'', ctr_Image = ''myimage'', ctr_other = []\<rparr> # []"
    by (simp add: reimaged_def primary_deployment_def)
  from canary_image [OF p1 p2 p3 p4, of "''nginx''" "''happy_turing''" "\<lparr>req_Tag = ''beta'', req_Replicas = 1\<rparr>"]
  have "\<exists>d. canary_deployment ''nginx'' ''happy_turing'' \<lparr>req_Tag = ''beta'', req_Replicas = 1\<rparr>
            (primary_deployment ''nginx'') = Inr d \<and>
         ctr_Image (hd (pod_Containers (tpl_Spec (spec_Template (dep_Spec d))))) = ''nginx:beta''"
    by auto
  moreover
  from canary_image [OF q1 p2 q3 q4, of "''nginx''" "''happy_turing''" "\<lparr>req_Tag = ''v2'', req_Replicas = 1\<rparr>"]
  have "\<exists>d. canary_deployment ''nginx'' ''happy_turing'' \<lparr>req_Tag = ''v2'', req_Replicas = 1\<rparr>
            (reimaged ''myimage'') = Inr d \<and>
         ctr_Image (hd (pod_Containers (tpl_Spec (spec_Template (dep_Spec d))))) = ''myimage:v2''"
    by auto
  ultimately show ?thesis by blast
qed

subsection \<open>The three track labels of the canary\<close>

lemma entries_update: "entries (Some (AList.update k v al)) k = Some v"
  by (simp add: entries_def update_conv')

text \<open>
  C8. The canary that the handler builds has the value \<^verbatim>\<open>canary\<close> under the key
  \<^verbatim>\<open>track\<close> in its own labels, in the match labels of its selector and in the labels of
  its pod template; and so has every object that a call of the handler adds to the store.
\<close>

theorem canary_track_three_places:
  "(canary_deployment name rnd req p = Inr d \<longrightarrow>
      entries (meta_Labels (dep_ObjectMeta d)) ''track'' = Some ''canary'' \<and>
      (\<exists>selector. spec_Selector (dep_Spec d) = Some selector \<and>
                  entries (sel_MatchLabels selector) ''track'' = Some ''canary'') \<and>
      entries (meta_Labels (tpl_ObjectMeta (spec_Template (dep_Spec d)))) ''track'' = Some ''canary'')
   \<and> (create_canary ctx name rnd store c = (r, c') \<and> d' \<in> set (cl_Deployments c')
        \<and> d' \<notin> set (cl_Deployments c) \<longrightarrow>
      entries (meta_Labels (dep_ObjectMeta d')) ''track'' = Some ''canary'' \<and>
      (\<exists>selector. spec_Selector (dep_Spec d') = Some selector \<and>
                  entries (sel_MatchLabels selector) ''track'' = Some ''canary'') \<and>
      entries (meta_Labels (tpl_ObjectMeta (spec_Template (dep_Spec d')))) ''track'' = Some ''canary'')"
proof -
  have built: "entries (meta_Labels (dep_ObjectMeta x)) ''track'' = Some ''canary'' \<and>
      (\<exists>selector. spec_Selector (dep_Spec x) = Some selector \<and>
                  entries (sel_MatchLabels selector) ''track'' = Some ''canary'') \<and>
      entries (meta_Labels (tpl_ObjectMeta (spec_Template (dep_Spec x)))) ''track'' = Some ''canary''"
    if "canary_deployment name rnd rq q = Inr x" for rq q x
    using canary_deployment_Inr_D [OF that] by (auto simp: entries_update) (simp add: entries_def)
  have "d' \<in> set (cl_Deployments c') \<Longrightarrow> d' \<notin> set (cl_Deployments c) \<Longrightarrow>
        create_canary ctx name rnd store c = (r, c') \<Longrightarrow>
        \<exists>rq q. canary_deployment name rnd rq q = Inr d'"
    using create_canary_store_cases [of ctx name rnd c r c'] by fastforce
  with built show ?thesis by blast
qed

theorem canary_track_three_places_witness:
  "\<exists>d. cl_Deployments (snd (create_canary (json_request \<lparr>req_Tag = ''canary'', req_Replicas = 1\<rparr>)
            ''nginx'' ''happy_turing'' store (example_cluster ''nginx'')))
          = [primary_deployment ''nginx'', d] \<and>
        canary_deployment ''nginx'' ''happy_turing'' \<lparr>req_Tag = ''canary'', req_Replicas = 1\<rparr>
          (primary_deployment ''nginx'') = Inr d \<and>
        entries (meta_Labels (dep_ObjectMeta d)) ''track'' = Some ''canary'' \<and>
        (\<exists>selector. spec_Selector (dep_Spec d) = Some selector \<and>
                  entries (sel_MatchLabels selector) ''track'' = Some ''canary'') \<and>
        entries (meta_Labels (tpl_ObjectMeta (spec_Template (dep_Spec d)))) ''track'' = Some ''canary''"
proof -
  let ?req = "\<lparr>req_Tag = ''canary'', req_Replicas = 1\<rparr>"
  obtain d where d: "canary_deployment ''nginx'' ''happy_turing'' ?req (primary_deployment ''nginx'') = Inr d"
    using canary_deployment_Inr_I [of "primary_deployment ''nginx''"]
    by (fastforce simp: primary_deployment_def)
  have g: "store_DeploymentsGet ''nginx'' (example_cluster ''nginx'') = Inr (primary_deployment ''nginx'')"
    by code_simp
  have n: "meta_Name (dep_ObjectMeta d) = ''nginx-canary-happy-turing''"
    using canary_deployment_Inr_D [OF d] by (auto simp: ReplaceAll_def)
  have "cl_Deployments (snd (create_canary (json_request ?req) ''nginx'' ''happy_turing'' store
            (example_cluster ''nginx'')))
          = [primary_deployment ''nginx'', d]"
    using d g n
    by (simp add: create_canary_def json_request_def store_def store_DeploymentsCreate_def
          example_cluster_def primary_deployment_def split: prod.splits sum.splits)
  with d canary_track_three_places [of "''nginx''" "''happy_turing''" ?req "primary_deployment ''nginx''" d]
  show ?thesis by blast
qed

subsection \<open>The canary passes the filter of the read\<close>

text \<open>
  C10. For every primary on which the handler does not panic (a selector with match
  labels, template labels, at least one container), whatever its own labels and
  annotations, the canary is built, and it carries the annotation \<^verbatim>\<open>devops-tool-htmx\<close>
  with the value \<^verbatim>\<open>true\<close> and a label \<^verbatim>\<open>track\<close>. So the filter of the read keeps it in
  every listing it is part of; a store that holds it lists it for the application named by
  its label \<^verbatim>\<open>app\<close>; and a successful read of that application has an entry of its name.
\<close>

theorem canary_is_managed:
  assumes "spec_Selector (dep_Spec p) = Some selector"
    and "sel_MatchLabels selector = Some ml"
    and "meta_Labels (tpl_ObjectMeta (spec_Template (dep_Spec p))) = Some tls"
    and "pod_Containers (tpl_Spec (spec_Template (dep_Spec p))) = c0 # cs"
  shows "\<exists>d. canary_deployment name rnd req p = Inr d \<and>
         index (meta_Annotations (dep_ObjectMeta d)) ''devops-tool-htmx'' = ''true'' \<and>
         ParseBool (index (meta_Annotations (dep_ObjectMeta d)) ''devops-tool-htmx'') = Some True \<and>
         comma_ok (meta_Labels (dep_ObjectMeta d)) ''track'' \<and>
         (\<forall>items. d \<in> set items \<longrightarrow> d \<in> set (managedDeployments_loop [] items)) \<and>
         (\<forall>c. d \<in> set (cl_Deployments c) \<longrightarrow>
            (\<exists>items. DeploymentsList store
                        [(''app'', index (meta_Labels (dep_ObjectMeta d)) ''app'')] c = Inr items \<and>
                     d \<in> set (managedDeployments_loop [] items))) \<and>
         (\<forall>c st. d \<in> set (cl_Deployments c) \<and>
                 GetAppState (index (meta_Labels (dep_ObjectMeta d)) ''app'') store c = Inr st \<longrightarrow>
                 meta_Name (dep_ObjectMeta d) \<in> set (map Name (Deployments st)))"
proof -
  from canary_deployment_Inr_I [OF assms] obtain d
    where d: "canary_deployment name rnd req p = Inr d" by blast
  from canary_deployment_Inr_D [OF d]
  have ann: "meta_Annotations (dep_ObjectMeta d) = Some [(''devops-tool-htmx'', ''true'')]"
    and lab: "meta_Labels (dep_ObjectMeta d) = Some [(''app'', ''nginx''), (''track'', ''canary'')]"
    by auto
  have a: "index (meta_Annotations (dep_ObjectMeta d)) ''devops-tool-htmx'' = ''true''"
    by (simp add: ann index_def entries_def)
  then have pb: "ParseBool (index (meta_Annotations (dep_ObjectMeta d)) ''devops-tool-htmx'') = Some True"
    by (simp add: ParseBool_def)
  have b: "comma_ok (meta_Labels (dep_ObjectMeta d)) ''track''"
    by (simp add: lab comma_ok_def entries_def)
  have app: "index (meta_Labels (dep_ObjectMeta d)) ''app'' = ''nginx''"
    by (simp add: lab index_def entries_def)
  have kept: "d \<in> set (managedDeployments_loop [] items)" if "d \<in> set items" for items
    using that pb b by (simp add: managedDeployments_loop_filter)
  have listed: "\<exists>items. DeploymentsList store [(''app'', ''nginx'')] c = Inr items \<and>
                  d \<in> set (managedDeployments_loop [] items)"
    if "d \<in> set (cl_Deployments c)" for c
  proof -
    have "d \<in> set (filter (\<lambda>x. matches [(''app'', ''nginx'')] (meta_Labels (dep_ObjectMeta x)))
                    (cl_Deployments c))"
      using that by (simp add: matches_def lab entries_def)
    then show ?thesis
      using kept by (simp add: store_def store_DeploymentsList_def)
  qed
  have surfaced: "meta_Name (dep_ObjectMeta d) \<in> set (map Name (Deployments st))"
    if "d \<in> set (cl_Deployments c)" "GetAppState ''nginx'' store c = Inr st" for c st
  proof -
    from listed [OF that(1)] obtain items
      where i: "DeploymentsList store [(''app'', ''nginx'')] c = Inr items"
        and k: "d \<in> set (managedDeployments_loop [] items)"
      by blast
    from GetAppState_Inr_D [OF that(2)] i
    have "asCustomDeployment (managedDeployments_loop [] items) = Inr (Deployments st)" by auto
    then have "map Name (Deployments st) =
                 map (\<lambda>v. meta_Name (dep_ObjectMeta v)) (managedDeployments_loop [] items)"
      using asCustomDeployment_names [of "[]"] by (simp add: asCustomDeployment_def)
    with k show ?thesis by auto
  qed
  from a pb b kept listed surfaced
  have rest: "index (meta_Annotations (dep_ObjectMeta d)) ''devops-tool-htmx'' = ''true'' \<and>
         ParseBool (index (meta_Annotations (dep_ObjectMeta d)) ''devops-tool-htmx'') = Some True \<and>
         comma_ok (meta_Labels (dep_ObjectMeta d)) ''track'' \<and>
         (\<forall>items. d \<in> set items \<longrightarrow> d \<in> set (managedDeployments_loop [] items)) \<and>
         (\<forall>c. d \<in> set (cl_Deployments c) \<longrightarrow>
            (\<exists>items. DeploymentsList store
                        [(''app'', index (meta_Labels (dep_ObjectMeta d)) ''app'')] c = Inr items \<and>
                     d \<in> set (managedDeployments_loop [] items))) \<and>
         (\<forall>c st. d \<in> set (cl_Deployments c) \<and>
                 GetAppState (index (meta_Labels (dep_ObjectMeta d)) ''app'') store c = Inr st \<longrightarrow>
                 meta_Name (dep_ObjectMeta d) \<in> set (map Name (Deployments st)))"
    unfolding app by blast
  show ?thesis
    by (rule exI [of _ d], rule conjI, rule d, rule rest)
qed

text \<open>
  A primary without labels and without annotations of its own, which the filter of the
  read drops: its canary has both and is kept.
\<close>

theorem canary_is_managed_witness:
  "meta_Labels (dep_ObjectMeta (relabelled ''bare'' None None)) = None \<and>
   meta_Annotations (dep_ObjectMeta (relabelled ''bare'' None None)) = None \<and>
   (\<exists>d. canary_deployment ''bare'' ''happy_turing'' \<lparr>req_Tag = ''canary'', req_Replicas = 1\<rparr>
          (relabelled ''bare'' None None) = Inr d \<and>
        index (meta_Annotations (dep_ObjectMeta d)) ''devops-tool-htmx'' = ''true'' \<and>
        comma_ok (meta_Labels (dep_ObjectMeta d)) ''track'' \<and>
        managedDeployments_loop [] [relabelled ''bare'' None None, d] = [d])"
proof -
  let ?req = "\<lparr>req_Tag = ''canary'', req_Replicas = 1\<rparr>"
  let ?p = "relabelled ''bare'' None None"
  let ?sel = "\<lparr>sel_MatchLabels = Some [(''app'', ''nginx''), (''track'', ''main'')],
               sel_MatchExpressions = []\<rparr>"
  let ?ls = "[(''app'', ''nginx''), (''track'', ''main'')]"
  let ?ctr = "\<lparr>ctr_Name = ''nginx'', ctr_Image = ''nginx:1.25.0-alpine'',
               ctr_other = ''ports: containerPort 80''\<rparr>"
  have p0: "meta_Labels (dep_ObjectMeta ?p) = None \<and> meta_Annotations (dep_ObjectMeta ?p) = None"
    by (simp add: relabelled_def)
  have p1: "spec_Selector (dep_Spec ?p) = Some ?sel"
    by (simp add: relabelled_def primary_deployment_def)
  have p2: "sel_MatchLabels ?sel = Some ?ls" by simp
  have p3: "meta_Labels (tpl_ObjectMeta (spec_Template (dep_Spec ?p))) = Some ?ls"
    by (simp add: relabelled_def primary_deployment_def)
  have p4: "pod_Containers (tpl_Spec (spec_Template (dep_Spec ?p))) = ?ctr # []"
    by (simp add: relabelled_def primary_deployment_def)
  from canary_is_managed [OF p1 p2 p3 p4, of "''bare''" "''happy_turing''" ?req]
  obtain d where d: "canary_deployment ''bare'' ''happy_turing'' ?req ?p = Inr d"
    and a: "index (meta_Annotations (dep_ObjectMeta d)) ''devops-tool-htmx'' = ''true''"
    and pb: "ParseBool (index (meta_Annotations (dep_ObjectMeta d)) ''devops-tool-htmx'') = Some True"
    and b: "comma_ok (meta_Labels (dep_ObjectMeta d)) ''track''"
    by (elim exE conjE) (rule that)
  have dropped: "ParseBool (index (meta_Annotations (dep_ObjectMeta ?p)) ''devops-tool-htmx'') = None"
    by (simp add: relabelled_def index_def entries_def ParseBool_def)
  from pb b dropped have "managedDeployments_loop [] [?p, d] = [d]"
    by (simp add: managedDeployments_loop_filter)
  with p0 d a b show ?thesis by (intro conjI exI [of _ d]) simp_all
qed

subsection \<open>The label \<^verbatim>\<open>app\<close> of the canary\<close>

text \<open>
  C5. The handler writes the literal \<^verbatim>\<open>nginx\<close> as the label \<^verbatim>\<open>app\<close> of the canary
  (line 224), whatever the application is called. For an application \<^verbatim>\<open>redis\<close>, set up
  as the manifest sets up \<^verbatim>\<open>nginx\<close>, the canary is created with the label
  \<^verbatim>\<open>app=nginx\<close>, and the state that the handler reads and returns right after for
  \<^verbatim>\<open>redis\<close> has the primary as its only entry.
\<close>

theorem canary_app_label_is_nginx:
  "fst (create_canary (json_request \<lparr>req_Tag = ''canary'', req_Replicas = 1\<rparr>)
          ''redis'' ''happy_turing'' store (example_cluster ''redis'')) =
     Inr \<lparr>CanaryEnabled = False,
          Deployments = [\<lparr>Name = ''redis'', Image = ''nginx:1.25.0-alpine'', Track = ''main'',
                          Replicas = 3, AvailableReplicas = 3\<rparr>],
          Endpoints = [\<lparr>TargetPod = ''pod-0'', Ip = ''10.0.0.7''\<rparr>]\<rparr>
   \<and> map (\<lambda>d. (meta_Name (dep_ObjectMeta d), index (meta_Labels (dep_ObjectMeta d)) ''app''))
        (cl_Deployments (snd (create_canary (json_request \<lparr>req_Tag = ''canary'', req_Replicas = 1\<rparr>)
           ''redis'' ''happy_turing'' store (example_cluster ''redis'')))) =
     [(''redis'', ''redis''), (''redis-canary-happy-turing'', ''nginx'')]"
  by code_simp

subsection \<open>The tag of the request is not checked\<close>

text \<open>The two conversions of the read end in a list or in a panic, never in an error.\<close>

lemma asCustomDeployment_loop_no_error: "asCustomDeployment_loop acc vs \<noteq> Inl (Error e)"
  by (induction vs arbitrary: acc) (auto split: list.splits option.splits)

lemma asCustomEndpoint_loop_no_error: "asCustomEndpoint_loop acc vs \<noteq> Inl (Error e)"
  by (induction vs arbitrary: acc) (auto split: option.splits)

lemma canary_deployment_no_error: "canary_deployment name rnd req p \<noteq> Inl (Error e)"
  by (auto simp: canary_deployment_def Let_def assign_def
        split: option.splits list.splits sum.splits)

lemma GetAppState_Error_D:
  "GetAppState name k8s x = Inl (Error e) \<Longrightarrow>
     DeploymentsList k8s [(''app'', name)] x = Inl e \<or>
     EndpointsGet k8s name x = Inl e \<or> ServicesGet k8s name x = Inl e"
  by (auto simp: GetAppState_def Let_def asCustomDeployment_def asCustomEndpoint_def
        asCustomDeployment_loop_no_error asCustomEndpoint_loop_no_error split: sum.splits)

lemma canary_deployment_Inl_D:
  "canary_deployment name rnd req p = Inl f \<Longrightarrow> \<exists>pk. f = Panic pk"
  by (auto simp: canary_deployment_def Let_def assign_def
        split: option.splits list.splits sum.splits)

lemma respond_Inl_D: "respond ctx st = Inl f \<Longrightarrow> f = Fiber RenderError \<or> f = Fiber JSONError"
  by (auto simp: respond_def Let_def split: if_splits)

text \<open>
  C6, as amended. The handler does not look at the tag before it uses it. With a body that
  parses to an empty tag and a primary on which it does not panic, it builds a canary whose
  image is the part of the primary's image before the first colon, followed by a colon, and
  hands it to the create call; what the handler returns from there on is for the client
  and the writer of the response to decide. A failure of the handler is one of these: the
  error of the parser of the body, before any call on the client; the error of the fetch
  of the primary; a panic while the canary is built; the error of the create call; a
  failure of the read that follows; the error of rendering the view or of writing JSON.
  An error of the client that the handler returns is the error of the fetch of the primary,
  of the create call, or of one of the three fetches of the read.
\<close>

theorem create_canary_failures:
  "(create_canary ctx name rnd k8s c = (Inl f, c') \<longrightarrow>
      (f = Fiber BodyParserError \<and> ctx_BodyParser ctx = None \<and> c' = c) \<or>
      (\<exists>req. ctx_BodyParser ctx = Some req \<and>
         ((\<exists>e. f = Error e \<and> DeploymentsGet k8s name c = Inl e \<and> c' = c) \<or>
          (\<exists>p. DeploymentsGet k8s name c = Inr p \<and>
             ((\<exists>pk. f = Panic pk \<and> canary_deployment name rnd req p = Inl (Panic pk) \<and> c' = c) \<or>
              (\<exists>d. canary_deployment name rnd req p = Inr d \<and>
                 ((\<exists>e. f = Error e \<and> DeploymentsCreate k8s d c = (Inl e, c')) \<or>
                  (\<exists>created. DeploymentsCreate k8s d c = (Inr created, c') \<and>
                     (GetAppState name k8s c' = Inl f \<or>
                      (\<exists>st. GetAppState name k8s c' = Inr st \<and> respond ctx st = Inl f \<and>
                            (f = Fiber RenderError \<or> f = Fiber JSONError)))))))))))
   \<and> (create_canary ctx name rnd k8s c = (Inl (Error e), c') \<longrightarrow>
      (\<exists>req. ctx_BodyParser ctx = Some req \<and>
        (DeploymentsGet k8s name c = Inl e \<or>
         (\<exists>p d. DeploymentsGet k8s name c = Inr p \<and> canary_deployment name rnd req p = Inr d \<and>
              (DeploymentsCreate k8s d c = (Inl e, c') \<or>
               (\<exists>created. DeploymentsCreate k8s d c = (Inr created, c') \<and>
                  (DeploymentsList k8s [(''app'', name)] c' = Inl e \<or>
                   EndpointsGet k8s name c' = Inl e \<or>
                   ServicesGet k8s name c' = Inl e)))))))
   \<and> (ctx_BodyParser ctx = Some \<lparr>req_Tag = [], req_Replicas = n\<rparr>
        \<and> DeploymentsGet k8s name c = Inr p
        \<and> spec_Selector (dep_Spec p) = Some selector
        \<and> sel_MatchLabels selector = Some ml
        \<and> meta_Labels (tpl_ObjectMeta (spec_Template (dep_Spec p))) = Some tls
        \<and> pod_Containers (tpl_Spec (spec_Template (dep_Spec p))) = c0 # cs \<longrightarrow>
      (\<exists>d. canary_deployment name rnd \<lparr>req_Tag = [], req_Replicas = n\<rparr> p = Inr d \<and>
           ctr_Image (hd (pod_Containers (tpl_Spec (spec_Template (dep_Spec d))))) =
             takeWhile (\<lambda>c. c \<noteq> CHR '':'') (ctr_Image c0) @ '':'' \<and>
           create_canary ctx name rnd k8s c =
             (case DeploymentsCreate k8s d c of
                (Inl err, c') \<Rightarrow> (Inl (Error err), c')
              | (Inr created, c') \<Rightarrow>
                  (case GetAppState name k8s c' of
                     Inl err \<Rightarrow> (Inl err, c')
                   | Inr appState \<Rightarrow> (respond ctx appState, c')))))"
proof (intro conjI impI)
  assume a: "create_canary ctx name rnd k8s c = (Inl f, c')"
  show "(f = Fiber BodyParserError \<and> ctx_BodyParser ctx = None \<and> c' = c) \<or>
      (\<exists>req. ctx_BodyParser ctx = Some req \<and>
         ((\<exists>e. f = Error e \<and> DeploymentsGet k8s name c = Inl e \<and> c' = c) \<or>
          (\<exists>p. DeploymentsGet k8s name c = Inr p \<and>
             ((\<exists>pk. f = Panic pk \<and> canary_deployment name rnd req p = Inl (Panic pk) \<and> c' = c) \<or>
              (\<exists>d. canary_deployment name rnd req p = Inr d \<and>
                 ((\<exists>e. f = Error e \<and> DeploymentsCreate k8s d c = (Inl e, c')) \<or>
                  (\<exists>created. DeploymentsCreate k8s d c = (Inr created, c') \<and>
                     (GetAppState name k8s c' = Inl f \<or>
                      (\<exists>st. GetAppState name k8s c' = Inr st \<and> respond ctx st = Inl f \<and>
                            (f = Fiber RenderError \<or> f = Fiber JSONError))))))))))"
  proof (cases "ctx_BodyParser ctx")
    case None
    with a show ?thesis by (simp add: create_canary_def)
  next
    case (Some req)
    note body = this
    show ?thesis
    proof (cases "DeploymentsGet k8s name c")
      case (Inl e)
      with a body show ?thesis by (simp add: create_canary_def)
    next
      case (Inr p)
      note got = this
      show ?thesis
      proof (cases "canary_deployment name rnd req p")
        case (Inl g)
        with canary_deployment_Inl_D [OF Inl] a body got show ?thesis
          by (auto simp: create_canary_def)
      next
        case (Inr d)
        note built = this
        obtain res c1 where cr: "DeploymentsCreate k8s d c = (res, c1)"
          by (cases "DeploymentsCreate k8s d c") blast
        show ?thesis
        proof (cases res)
          case (Inl e)
          with a body got built cr show ?thesis by (simp add: create_canary_def)
        next
          case (Inr created)
          note made = this
          show ?thesis
          proof (cases "GetAppState name k8s c1")
            case (Inl g)
            with a body got built cr made show ?thesis by (auto simp: create_canary_def)
          next
            case (Inr st)
            with a body got built cr made have r: "respond ctx st = Inl f" and c1: "c1 = c'"
              by (auto simp: create_canary_def)
            from respond_Inl_D [OF r] r c1 body got built cr made Inr show ?thesis by auto
          qed
        qed
      qed
    qed
  qed
next
  assume a: "create_canary ctx name rnd k8s c = (Inl (Error e), c')"
  from a obtain req where body: "ctx_BodyParser ctx = Some req"
    by (cases "ctx_BodyParser ctx") (auto simp: create_canary_def)
  have nr: "respond ctx st \<noteq> Inl (Error e)" for st
    using respond_Inl_D [of ctx st "Error e"] by auto
  from a body have "DeploymentsGet k8s name c = Inl e \<or>
         (\<exists>p d. DeploymentsGet k8s name c = Inr p \<and> canary_deployment name rnd req p = Inr d \<and>
              (DeploymentsCreate k8s d c = (Inl e, c') \<or>
               (\<exists>created. DeploymentsCreate k8s d c = (Inr created, c') \<and>
                  (DeploymentsList k8s [(''app'', name)] c' = Inl e \<or>
                   EndpointsGet k8s name c' = Inl e \<or>
                   ServicesGet k8s name c' = Inl e))))"
    using GetAppState_Error_D [of name k8s c' e] nr
    by (auto simp: create_canary_def canary_deployment_no_error split: sum.splits prod.splits)
  with body show "\<exists>req. ctx_BodyParser ctx = Some req \<and>
        (DeploymentsGet k8s name c = Inl e \<or>
         (\<exists>p d. DeploymentsGet k8s name c = Inr p \<and> canary_deployment name rnd req p = Inr d \<and>
              (DeploymentsCreate k8s d c = (Inl e, c') \<or>
               (\<exists>created. DeploymentsCreate k8s d c = (Inr created, c') \<and>
                  (DeploymentsList k8s [(''app'', name)] c' = Inl e \<or>
                   EndpointsGet k8s name c' = Inl e \<or>
                   ServicesGet k8s name c' = Inl e)))))"
    by blast
next
  assume b: "ctx_BodyParser ctx = Some \<lparr>req_Tag = [], req_Replicas = n\<rparr>
        \<and> DeploymentsGet k8s name c = Inr p
        \<and> spec_Selector (dep_Spec p) = Some selector
        \<and> sel_MatchLabels selector = Some ml
        \<and> meta_Labels (tpl_ObjectMeta (spec_Template (dep_Spec p))) = Some tls
        \<and> pod_Containers (tpl_Spec (spec_Template (dep_Spec p))) = c0 # cs"
  let ?req = "\<lparr>req_Tag = [], req_Replicas = n\<rparr>"
  from b canary_deployment_Inr_I [of p selector ml tls c0 cs name rnd ?req]
  obtain d where d: "canary_deployment name rnd ?req p = Inr d" by blast
  from canary_deployment_Inr_D [OF d] b
  have "ctr_Image (hd (pod_Containers (tpl_Spec (spec_Template (dep_Spec d))))) =
             takeWhile (\<lambda>c. c \<noteq> CHR '':'') (ctr_Image c0) @ '':''"
    by auto
  moreover from b d have "create_canary ctx name rnd k8s c =
             (case DeploymentsCreate k8s d c of
                (Inl err, c') \<Rightarrow> (Inl (Error err), c')
              | (Inr created, c') \<Rightarrow>
                  (case GetAppState name k8s c' of
                     Inl err \<Rightarrow> (Inl err, c')
                   | Inr appState \<Rightarrow> (respond ctx appState, c')))"
    by (simp add: create_canary_def)
  ultimately show "\<exists>d. canary_deployment name rnd ?req p = Inr d \<and>
           ctr_Image (hd (pod_Containers (tpl_Spec (spec_Template (dep_Spec d))))) =
             takeWhile (\<lambda>c. c \<noteq> CHR '':'') (ctr_Image c0) @ '':'' \<and>
           create_canary ctx name rnd k8s c =
             (case DeploymentsCreate k8s d c of
                (Inl err, c') \<Rightarrow> (Inl (Error err), c')
              | (Inr created, c') \<Rightarrow>
                  (case GetAppState name k8s c' of
                     Inl err \<Rightarrow> (Inl err, c')
                   | Inr appState \<Rightarrow> (respond ctx appState, c')))"
    using d by blast
qed

text \<open>
  Three requests on the example cluster: a body that does not parse, an application that
  has no deployment, and an empty tag for \<^verbatim>\<open>nginx\<close>.
\<close>

theorem create_canary_failures_witness:
  "create_canary \<lparr>ctx_BodyParser = None, ctx_HXRequest = ''false'',
                   ctx_Render = (\<lambda>appState. True), ctx_JSON = (\<lambda>appState. True)\<rparr>
      ''nginx'' ''happy_turing'' store (example_cluster ''nginx'')
     = (Inl (Fiber BodyParserError), example_cluster ''nginx'')
   \<and> create_canary (json_request \<lparr>req_Tag = [], req_Replicas = 1\<rparr>)
        ''ghost'' ''happy_turing'' store (example_cluster ''nginx'')
     = (Inl (Error NotFound), example_cluster ''nginx'')
   \<and> DeploymentsGet store ''ghost'' (example_cluster ''nginx'') = Inl NotFound
   \<and> (\<exists>d. canary_deployment ''nginx'' ''happy_turing'' \<lparr>req_Tag = [], req_Replicas = 1\<rparr>
              (primary_deployment ''nginx'') = Inr d \<and>
           ctr_Image (hd (pod_Containers (tpl_Spec (spec_Template (dep_Spec d))))) = ''nginx:'' \<and>
           create_canary (json_request \<lparr>req_Tag = [], req_Replicas = 1\<rparr>)
              ''nginx'' ''happy_turing'' store (example_cluster ''nginx'') =
             (case DeploymentsCreate store d (example_cluster ''nginx'') of
                (Inl err, c') \<Rightarrow> (Inl (Error err), c')
              | (Inr created, c') \<Rightarrow>
                  (case GetAppState ''nginx'' store c' of
                     Inl err \<Rightarrow> (Inl err, c')
                   | Inr appState \<Rightarrow>
                       (respond (json_request \<lparr>req_Tag = [], req_Replicas = 1\<rparr>) appState, c'))))"
proof -
  let ?req = "\<lparr>req_Tag = [], req_Replicas = 1\<rparr>"
  let ?bad = "\<lparr>ctx_BodyParser = None, ctx_HXRequest = ''false'',
               ctx_Render = (\<lambda>appState. True), ctx_JSON = (\<lambda>appState. True)\<rparr>"
  let ?c = "example_cluster ''nginx''"
  let ?sel = "\<lparr>sel_MatchLabels = Some [(''app'', ''nginx''), (''track'', ''main'')],
               sel_MatchExpressions = []\<rparr>"
  let ?ls = "[(''app'', ''nginx''), (''track'', ''main'')]"
  let ?ctr = "\<lparr>ctr_Name = ''nginx'', ctr_Image = ''nginx:1.25.0-alpine'',
               ctr_other = ''ports: containerPort 80''\<rparr>"
  have a0: "create_canary ?bad ''nginx'' ''happy_turing'' store ?c = (Inl (Fiber BodyParserError), ?c)"
    by (simp add: create_canary_def)
  have a: "create_canary (json_request ?req) ''ghost'' ''happy_turing'' store ?c
             = (Inl (Error NotFound), ?c)"
    by (simp add: create_canary_def json_request_def store_def store_DeploymentsGet_def
          example_cluster_def primary_deployment_def)
  have g: "\<not> (\<exists>p. DeploymentsGet store ''ghost'' ?c = Inr p)"
    by (simp add: store_def store_DeploymentsGet_def example_cluster_def primary_deployment_def)
  have b: "ctx_BodyParser (json_request ?req) = Some ?req
        \<and> DeploymentsGet store ''nginx'' ?c = Inr (primary_deployment ''nginx'')
        \<and> spec_Selector (dep_Spec (primary_deployment ''nginx'')) = Some ?sel
        \<and> sel_MatchLabels ?sel = Some ?ls
        \<and> meta_Labels (tpl_ObjectMeta (spec_Template (dep_Spec (primary_deployment ''nginx'')))) = Some ?ls
        \<and> pod_Containers (tpl_Spec (spec_Template (dep_Spec (primary_deployment ''nginx'')))) = ?ctr # []"
    by (simp add: json_request_def store_def store_DeploymentsGet_def example_cluster_def
          primary_deployment_def)
  note t0 = create_canary_failures [where ctx = ?bad and name = "''nginx''" and rnd = "''happy_turing''"
             and ?k8s = store and c = ?c and f = "Fiber BodyParserError" and c' = ?c]
  note t1 = create_canary_failures [where ctx = "json_request ?req" and name = "''ghost''"
             and rnd = "''happy_turing''" and ?k8s = store and c = ?c and e = NotFound and c' = ?c]
  note t2 = create_canary_failures [where ctx = "json_request ?req" and name = "''nginx''"
             and rnd = "''happy_turing''" and ?k8s = store and c = ?c
             and p = "primary_deployment ''nginx''" and selector = ?sel
             and ml = ?ls and tls = ?ls and ?c0.0 = ?ctr and cs = "[]" and n = 1]
  from t0 a0 have "ctx_BodyParser ?bad = None \<or> (\<exists>req. ctx_BodyParser ?bad = Some req)"
    by blast
  from t1 a g have "DeploymentsGet store ''ghost'' ?c = Inl NotFound"
    by blast
  moreover from t2 b have "\<exists>d. canary_deployment ''nginx'' ''happy_turing'' ?req
              (primary_deployment ''nginx'') = Inr d \<and>
           ctr_Image (hd (pod_Containers (tpl_Spec (spec_Template (dep_Spec d))))) = ''nginx:'' \<and>
           create_canary (json_request ?req) ''nginx'' ''happy_turing'' store ?c =
             (case DeploymentsCreate store d ?c of
                (Inl err, c') \<Rightarrow> (Inl (Error err), c')
              | (Inr created, c') \<Rightarrow>
                  (case GetAppState ''nginx'' store c' of
                     Inl err \<Rightarrow> (Inl err, c')
                   | Inr appState \<Rightarrow> (respond (json_request ?req) appState, c')))"
    by simp
  ultimately show ?thesis using a0 a by blast
qed

text \<open>
  The specification has an empty tag fail and create nothing. On the example cluster the
  call succeeds, and the store holds a second deployment, of image \<^verbatim>\<open>nginx:\<close>.
\<close>

theorem empty_tag_creates_canary:
  "fst (create_canary (json_request \<lparr>req_Tag = [], req_Replicas = 1\<rparr>)
          ''nginx'' ''happy_turing'' store (example_cluster ''nginx'')) =
     Inr \<lparr>CanaryEnabled = False,
          Deployments = [\<lparr>Name = ''nginx'', Image = ''nginx:1.25.0-alpine'', Track = ''main'',
                          Replicas = 3, AvailableReplicas = 3\<rparr>,
                         \<lparr>Name = ''nginx-canary-happy-turing'', Image = ''nginx:'', Track = ''canary'',
                          Replicas = 1, AvailableReplicas = 0\<rparr>],
          Endpoints = [\<lparr>TargetPod = ''pod-0'', Ip = ''10.0.0.7''\<rparr>]\<rparr>
   \<and> map (\<lambda>d. meta_Name (dep_ObjectMeta d))
        (cl_Deployments (snd (create_canary (json_request \<lparr>req_Tag = [], req_Replicas = 1\<rparr>)
           ''nginx'' ''happy_turing'' store (example_cluster ''nginx'')))) =
     [''nginx'', ''nginx-canary-happy-turing'']"
  by code_simp

section \<open>Properties of the Traffic Switch\<close>

lemma selector_member_track: "selector_member ''/spec/selector/track'' = Some ''track''"
  by (simp add: selector_member_def)

text \<open>The two patches of the handler, applied to a selector.\<close>

lemma applyPatch_add:
  "applyPatch [\<lparr>Op = ''add'', Path = ''/spec/selector/track'', From = [], Value = ''main''\<rparr>] sel =
     (case sel of
        None \<Rightarrow> Inl Invalid
      | Some al \<Rightarrow> if al = [] then Inl Invalid else Inr (Some (AList.update ''track'' ''main'' al)))"
  by (simp add: applyOp_def selector_member_track split: option.splits)

lemma applyPatch_remove:
  "applyPatch [\<lparr>Op = ''remove'', Path = ''/spec/selector/track'', From = [], Value = ''main''\<rparr>] sel =
     (case sel of
        None \<Rightarrow> Inl Invalid
      | Some al \<Rightarrow> if comma_ok sel ''track'' then Inr (Some (AList.delete ''track'' al)) else Inl Invalid)"
  by (simp add: applyOp_def selector_member_track split: option.splits)

text \<open>Replacing the object found under a name.\<close>

lemma find_svc_Name: "find (\<lambda>s. svc_Name s = name) ss = Some s \<Longrightarrow> svc_Name s = name"
  by (induction ss) (auto split: if_splits)

lemma update_service_same:
  "find (\<lambda>s. svc_Name s = name) ss = Some s \<Longrightarrow> update_service name s ss = ss"
  by (induction ss) (auto split: if_splits)

lemma find_update_service:
  "find (\<lambda>s. svc_Name s = name) ss = Some s \<Longrightarrow> svc_Name s' = name \<Longrightarrow>
     find (\<lambda>s. svc_Name s = name) (update_service name s' ss) = Some s'"
  by (induction ss) (auto split: if_splits)

lemma update_service_twice:
  "svc_Name s' = name \<Longrightarrow>
     update_service name s' (update_service name s' ss) = update_service name s' ss"
  by (induction ss) auto

lemma update_nonempty: "AList.update k v al \<noteq> []"
  by (cases al) (auto simp: AList.update.simps)

lemma update_update_same: "AList.update k v (AList.update k v al) = AList.update k v al"
  by (simp add: update_triv update_conv')

text \<open>The handler on the store, by the patch it sends.\<close>

lemma set_canary_disable:
  "set_canary name False store c =
     (case find (\<lambda>s. svc_Name s = name) (cl_Services c) of
        None \<Rightarrow> (Inl (Error NotFound), c)
      | Some s \<Rightarrow>
          (case svc_Selector s of
             None \<Rightarrow> (Inl (Error Invalid), c)
           | Some al \<Rightarrow>
               if al = [] then (Inl (Error Invalid), c)
               else let c' = c\<lparr>cl_Services :=
                       update_service name (s\<lparr>svc_Selector := Some (AList.update ''track'' ''main'' al)\<rparr>)
                         (cl_Services c)\<rparr>
                    in (GetAppState name store c', c')))"
  by (simp add: set_canary_def store_def store_ServicesPatch_def applyPatch_add Let_def
        del: applyPatch.simps split: option.splits)

lemma set_canary_enable:
  "set_canary name True store c =
     (case find (\<lambda>s. svc_Name s = name) (cl_Services c) of
        None \<Rightarrow> (Inl (Error NotFound), c)
      | Some s \<Rightarrow>
          (case svc_Selector s of
             None \<Rightarrow> (Inl (Error Invalid), c)
           | Some al \<Rightarrow>
               if comma_ok (Some al) ''track''
               then let c' = c\<lparr>cl_Services :=
                       update_service name (s\<lparr>svc_Selector := Some (AList.delete ''track'' al)\<rparr>)
                         (cl_Services c)\<rparr>
                    in (GetAppState name store c', c')
               else (Inl (Error Invalid), c)))"
  by (simp add: set_canary_def store_def store_ServicesPatch_def applyPatch_remove Let_def
        del: applyPatch.simps split: option.splits)

lemma set_canary_disable_twice:
  "snd (set_canary name False store (snd (set_canary name False store c))) =
   snd (set_canary name False store c)"
proof (cases "find (\<lambda>s. svc_Name s = name) (cl_Services c)")
  case None
  then show ?thesis by (simp add: set_canary_disable)
next
  case (Some s)
  show ?thesis
  proof (cases "svc_Selector s")
    case None
    with Some show ?thesis by (simp add: set_canary_disable)
  next
    case (Some al)
    note sel = this
    show ?thesis
    proof (cases "al = []")
      case True
      with sel \<open>find (\<lambda>s. svc_Name s = name) (cl_Services c) = Some s\<close>
      show ?thesis by (simp add: set_canary_disable)
    next
      case False
      let ?s' = "s\<lparr>svc_Selector := Some (AList.update ''track'' ''main'' al)\<rparr>"
      let ?c' = "c\<lparr>cl_Services := update_service name ?s' (cl_Services c)\<rparr>"
      have f: "find (\<lambda>s. svc_Name s = name) (cl_Services c) = Some s" by fact
      have n: "svc_Name ?s' = name" using find_svc_Name [OF f] by simp
      have one: "snd (set_canary name False store c) = ?c'"
        using f sel False by (simp add: set_canary_disable Let_def)
      have f': "find (\<lambda>s. svc_Name s = name) (cl_Services ?c') = Some ?s'"
        using find_update_service [OF f n] by simp
      have "snd (set_canary name False store ?c') = ?c'"
        using f' n
        by (simp add: set_canary_disable Let_def update_nonempty update_update_same
              update_service_twice)
      with one show ?thesis by simp
    qed
  qed
qed

lemma store_ServicesGet_find:
  "ServicesGet store name c = Inr s \<Longrightarrow> find (\<lambda>s. svc_Name s = name) (cl_Services c) = Some s"
  by (simp add: store_def store_ServicesGet_def split: option.splits)

text \<open>
  C4, as amended. On the store, switching canary traffic off twice leaves the services as
  switching it off once does. Switching it off when the selector already has
  \<^verbatim>\<open>track=main\<close> changes nothing and is no error: the handler goes on to read the state.
  Switching it on when the selector has no key \<^verbatim>\<open>track\<close> is an error: the patch removes
  a member that is not there, the store answers \<open>Invalid\<close>, and the handler returns that,
  with the selector as it was.
\<close>

theorem set_canary_idempotence:
  "snd (set_canary name False store (snd (set_canary name False store c))) =
     snd (set_canary name False store c)
   \<and> (ServicesGet store name c = Inr s \<and> entries (svc_Selector s) ''track'' = Some ''main'' \<longrightarrow>
        set_canary name False store c = (GetAppState name store c, c))
   \<and> (ServicesGet store name c = Inr s \<and> entries (svc_Selector s) ''track'' = None \<longrightarrow>
        set_canary name True store c = (Inl (Error Invalid), c))"
proof (intro conjI impI)
  show "snd (set_canary name False store (snd (set_canary name False store c))) =
     snd (set_canary name False store c)"
    by (rule set_canary_disable_twice)
next
  assume a: "ServicesGet store name c = Inr s \<and> entries (svc_Selector s) ''track'' = Some ''main''"
  then have f: "find (\<lambda>s. svc_Name s = name) (cl_Services c) = Some s"
    by (simp add: store_ServicesGet_find)
  from a obtain al where al: "svc_Selector s = Some al" and m: "map_of al ''track'' = Some ''main''"
    by (auto simp: entries_def split: option.splits)
  from m have ne: "al \<noteq> []" by auto
  from m have u: "AList.update ''track'' ''main'' al = al" by (rule update_triv)
  from al have "s\<lparr>svc_Selector := Some al\<rparr> = s" by simp
  with f al ne u show "set_canary name False store c = (GetAppState name store c, c)"
    by (simp add: set_canary_disable Let_def update_service_same)
next
  assume a: "ServicesGet store name c = Inr s \<and> entries (svc_Selector s) ''track'' = None"
  then have f: "find (\<lambda>s. svc_Name s = name) (cl_Services c) = Some s"
    by (simp add: store_ServicesGet_find)
  from a f show "set_canary name True store c = (Inl (Error Invalid), c)"
    by (auto simp: set_canary_enable entries_def comma_ok_def split: option.splits)
qed

theorem set_canary_idempotence_witness:
  "set_canary ''nginx'' False store (example_cluster ''nginx'') =
     (GetAppState ''nginx'' store (example_cluster ''nginx''), example_cluster ''nginx'')
   \<and> set_canary ''nginx'' True store
        ((example_cluster ''nginx'')
           \<lparr>cl_Services := [\<lparr>svc_Name = ''nginx'', svc_Selector = Some [(''app'', ''nginx'')]\<rparr>]\<rparr>) =
     (Inl (Error Invalid),
      (example_cluster ''nginx'')
           \<lparr>cl_Services := [\<lparr>svc_Name = ''nginx'', svc_Selector = Some [(''app'', ''nginx'')]\<rparr>]\<rparr>)"
proof -
  let ?c = "example_cluster ''nginx''"
  let ?s' = "\<lparr>svc_Name = ''nginx'', svc_Selector = Some [(''app'', ''nginx'')]\<rparr>"
  let ?c' = "?c\<lparr>cl_Services := [?s']\<rparr>"
  have a: "ServicesGet store ''nginx'' ?c = Inr (base_service ''nginx'')
           \<and> entries (svc_Selector (base_service ''nginx'')) ''track'' = Some ''main''"
    by (simp add: store_def store_ServicesGet_def example_cluster_def base_service_def entries_def)
  have b: "ServicesGet store ''nginx'' ?c' = Inr ?s' \<and> entries (svc_Selector ?s') ''track'' = None"
    by (simp add: store_def store_ServicesGet_def entries_def)
  from set_canary_idempotence [of "''nginx''" ?c "base_service ''nginx''"] a
  have "set_canary ''nginx'' False store ?c = (GetAppState ''nginx'' store ?c, ?c)" by blast
  moreover from set_canary_idempotence [of "''nginx''" ?c' ?s'] b
  have "set_canary ''nginx'' True store ?c' = (Inl (Error Invalid), ?c')" by blast
  ultimately show ?thesis by blast
qed

text \<open>
  The specification has switching canary traffic on, when it is on already, be a patch
  that changes nothing and does not fail. On the example cluster the first call removes
  the key \<^verbatim>\<open>track\<close> and reports canary traffic on; the second call, on the selector
  that the first one left, fails.
\<close>

theorem enable_twice_fails:
  "fst (set_canary ''nginx'' True store (example_cluster ''nginx'')) =
     Inr \<lparr>CanaryEnabled = True,
          Deployments = [\<lparr>Name = ''nginx'', Image = ''nginx:1.25.0-alpine'', Track = ''main'',
                          Replicas = 3, AvailableReplicas = 3\<rparr>],
          Endpoints = [\<lparr>TargetPod = ''pod-0'', Ip = ''10.0.0.7''\<rparr>]\<rparr>
   \<and> map svc_Selector (cl_Services (snd (set_canary ''nginx'' True store (example_cluster ''nginx''))))
      = [Some [(''app'', ''nginx'')]]
   \<and> fst (set_canary ''nginx'' True store (snd (set_canary ''nginx'' True store (example_cluster ''nginx''))))
      = Inl (Error Invalid)
   \<and> map svc_Selector (cl_Services (snd (set_canary ''nginx'' True store
         (snd (set_canary ''nginx'' True store (example_cluster ''nginx''))))))
      = [Some [(''app'', ''nginx'')]]"
  by code_simp

end
